theory Spec2Isabelle
  imports Main "HOL-Library.Word"
begin

section \<open>Caliper data model\<close>

text \<open>
  The two services (\<^verbatim>\<open>RocTracer.cpp\<close>, \<^verbatim>\<open>UmpireStatistics.cpp\<close>) are adapters on top
  of the Caliper core. The types of the core that they handle are embedded here:
  attributes, variants, context-tree nodes and node pointers.
\<close>

datatype cali_attr_type = CALI_TYPE_STRING | CALI_TYPE_UINT | CALI_TYPE_BOOL

datatype cali_attr_flag =
  CALI_ATTR_DEFAULT | CALI_ATTR_ASVALUE | CALI_ATTR_SKIP_EVENTS | CALI_ATTR_NESTED

datatype variant = V_empty | V_string string | V_uint "64 word" | V_bool bool

record attribute =
  attr_name :: string
  attr_type :: cali_attr_type
  attr_flags :: "cali_attr_flag list"
  attr_meta :: "(string \<times> variant) list"

text \<open>A \<^verbatim>\<open>cali::Node*\<close>: either \<^verbatim>\<open>nullptr\<close> or the address of a node object.\<close>

datatype node_ptr = Null | NodeRef nat

record cali_node =
  node_attr :: attribute
  node_value :: variant
  node_parent :: node_ptr

section \<open>The Caliper core, as far as the services call it\<close>

text \<open>
  The process-wide runtime state the services act on: the arena of node objects
  (a \<open>NodeRef i\<close> is the address of \<open>nodes ! i\<close>), the records handed to
  \<^verbatim>\<open>process_snapshot\<close> (with the channel they went to), the usage errors reported,
  the log with its verbosity.
\<close>

datatype cali_error = ScopeMismatchError attribute

datatype log_message =
  LOG_flushed string "32 word" "32 word" "32 word"
| LOG_processed string int
| LOG_already_active string
| LOG_registered string bool

record snapshot_record =
  sb_capacity :: nat
  sb_fields :: "(attribute \<times> variant) list"
  sb_context :: "node_ptr list"
  sb_skipped :: nat

record caliper =
  nodes :: "cali_node list"
  processed :: "(string \<times> snapshot_record) list"
  usage_errors :: "cali_error list"
  verbosity :: int
  log_stream :: "(nat \<times> log_message) list"

text \<open>
  Modelled from the spec: the Attribute Registry (\<^verbatim>\<open>Caliper::create_attribute\<close>) is
  not among the sources. The spec's \<^verbatim>\<open>create_or_get(name, type, flags, metadata)\<close>
  returns the descriptor registered under the name; the model builds the descriptor
  from the arguments of the call.
\<close>

definition create_attribute ::
  "string \<Rightarrow> cali_attr_type \<Rightarrow> cali_attr_flag list \<Rightarrow> (string \<times> variant) list \<Rightarrow> attribute" where
  "create_attribute name ty flags meta =
     \<lparr>attr_name = name, attr_type = ty, attr_flags = flags, attr_meta = meta\<rparr>"

text \<open>
  Modelled from the spec: the Context Tree (\<^verbatim>\<open>Caliper::begin\<close>, \<^verbatim>\<open>Caliper::end\<close>,
  \<^verbatim>\<open>Caliper::get\<close>, \<^verbatim>\<open>Caliper::make_tree_entry\<close>) is not among the sources. Following
  section 4.2 of the spec, \<^verbatim>\<open>begin\<close> creates a child of the calling thread's current
  node and makes it current; \<^verbatim>\<open>end\<close> restores the parent when the attribute is the one
  of the current node and reports a scope mismatch otherwise. The calling thread's
  current node is passed in and returned with the runtime state.
\<close>

definition cali_begin ::
  "attribute \<Rightarrow> variant \<Rightarrow> caliper \<times> node_ptr \<Rightarrow> caliper \<times> node_ptr" where
  "cali_begin attr val st =
     (case st of (c, ctx) \<Rightarrow>
        (c\<lparr>nodes := nodes c @ [\<lparr>node_attr = attr, node_value = val, node_parent = ctx\<rparr>]\<rparr>,
         NodeRef (length (nodes c))))"

text \<open>
  Modelled from the spec: \<^verbatim>\<open>Caliper::end\<close> (section 4.2), not among the sources. A mismatch
  is a usage error that is reported; the current node stays.
\<close>

definition cali_end :: "attribute \<Rightarrow> caliper \<times> node_ptr \<Rightarrow> caliper \<times> node_ptr" where
  "cali_end attr st =
     (case st of (c, ctx) \<Rightarrow>
        (case ctx of
           NodeRef i \<Rightarrow>
             if i < length (nodes c) \<and> node_attr (nodes c ! i) = attr
             then (c, node_parent (nodes c ! i))
             else (c\<lparr>usage_errors := usage_errors c @ [ScopeMismatchError attr]\<rparr>, ctx)
         | Null \<Rightarrow> (c\<lparr>usage_errors := usage_errors c @ [ScopeMismatchError attr]\<rparr>, ctx)))"

text \<open>
  Modelled from the spec: \<^verbatim>\<open>Entry\<close> and \<^verbatim>\<open>Caliper::get\<close>, not among the sources. An
  entry is empty, or a reference to the innermost node of the thread's current path
  (section 4.2: the path from the current node to the root) that carries the attribute.
\<close>

datatype entry = Entry_empty | Entry_reference nat

fun is_reference :: "entry \<Rightarrow> bool" where
  "is_reference (Entry_reference i) = True"
| "is_reference Entry_empty = False"

fun entry_node :: "entry \<Rightarrow> node_ptr" where
  "entry_node (Entry_reference i) = NodeRef i"
| "entry_node Entry_empty = Null"

text \<open>
  Modelled from the spec: the walk from a node towards the root that \<^verbatim>\<open>Caliper::get\<close>
  makes; a path has at most as many nodes as the arena.
\<close>

fun find_entry :: "nat \<Rightarrow> cali_node list \<Rightarrow> attribute \<Rightarrow> node_ptr \<Rightarrow> entry" where
  "find_entry 0 ns attr p = Entry_empty"
| "find_entry (Suc k) ns attr Null = Entry_empty"
| "find_entry (Suc k) ns attr (NodeRef i) =
     (if i < length ns
      then (if node_attr (ns ! i) = attr then Entry_reference i
            else find_entry k ns attr (node_parent (ns ! i)))
      else Entry_empty)"

text \<open>Modelled from the spec: \<^verbatim>\<open>Caliper::get\<close>, not among the sources.\<close>

definition cali_get :: "attribute \<Rightarrow> caliper \<Rightarrow> node_ptr \<Rightarrow> entry" where
  "cali_get attr c ctx = find_entry (length (nodes c)) (nodes c) attr ctx"

text \<open>
  Modelled from the spec: \<^verbatim>\<open>Caliper::make_tree_entry\<close>, not among the sources; a new node
  under the given parent (section 3: the tree is only extended by adding children).
\<close>

definition make_tree_entry ::
  "attribute \<Rightarrow> variant \<Rightarrow> node_ptr \<Rightarrow> caliper \<Rightarrow> caliper \<times> node_ptr" where
  "make_tree_entry attr val parent c =
     (c\<lparr>nodes := nodes c @ [\<lparr>node_attr = attr, node_value = val, node_parent = parent\<rparr>]\<rparr>,
      NodeRef (length (nodes c)))"

text \<open>The value of the node a pointer refers to; \<open>None\<close> for a pointer that refers to none.\<close>

fun node_value_at :: "caliper \<Rightarrow> node_ptr \<Rightarrow> variant option" where
  "node_value_at c Null = None"
| "node_value_at c (NodeRef i) = (if i < length (nodes c) then Some (node_value (nodes c ! i)) else None)"

text \<open>
  Modelled from the spec: the Snapshot Builder (\<^verbatim>\<open>FixedSizeSnapshotRecord\<close>,
  \<^verbatim>\<open>SnapshotBuilder::append\<close>, \<^verbatim>\<open>Caliper::make_record\<close>, \<^verbatim>\<open>Caliper::pull_context\<close>)
  and the dispatch of a record (\<^verbatim>\<open>process_snapshot\<close>) are not among the sources. Following
  sections 3 and 4.4 of the spec, a record is an ordered sequence of fields of a fixed
  maximum capacity together with its inherited context; appending a field to a full record
  drops the field and counts it; appending a context branch merges the node reference into
  the record's context (a null pointer adds nothing, so a record built from one parent
  pointer has at most one inherited branch).
\<close>

definition FixedSizeSnapshotRecord :: "nat \<Rightarrow> snapshot_record" where
  "FixedSizeSnapshotRecord n = \<lparr>sb_capacity = n, sb_fields = [], sb_context = [], sb_skipped = 0\<rparr>"

text \<open>
  Modelled from the spec: \<^verbatim>\<open>SnapshotBuilder::append\<close> of a field (section 4.4), not among
  the sources.
\<close>

definition sb_append :: "attribute \<times> variant \<Rightarrow> snapshot_record \<Rightarrow> snapshot_record" where
  "sb_append f b =
     (if length (sb_fields b) < sb_capacity b
      then b\<lparr>sb_fields := sb_fields b @ [f]\<rparr>
      else b\<lparr>sb_skipped := Suc (sb_skipped b)\<rparr>)"

text \<open>
  Modelled from the spec: \<^verbatim>\<open>SnapshotBuilder::append\<close> of a context branch (section 4.4),
  not among the sources.
\<close>

fun sb_append_branch :: "node_ptr \<Rightarrow> snapshot_record \<Rightarrow> snapshot_record" where
  "sb_append_branch Null b = b"
| "sb_append_branch (NodeRef i) b = b\<lparr>sb_context := sb_context b @ [NodeRef i]\<rparr>"

text \<open>
  Modelled from the spec: \<^verbatim>\<open>SnapshotBuilder::append\<close> of a \<^verbatim>\<open>SnapshotView\<close>, not among
  the sources; the fields of the view, then its context.
\<close>

definition sb_append_view :: "snapshot_record \<Rightarrow> snapshot_record \<Rightarrow> snapshot_record" where
  "sb_append_view v b = fold sb_append_branch (sb_context v) (fold sb_append (sb_fields v) b)"

text \<open>
  Modelled from the spec: \<^verbatim>\<open>Caliper::make_record\<close>, not among the sources; the first
  \<open>n\<close> attribute and value pairs as fields, and the parent as the inherited branch.
\<close>

definition make_record ::
  "nat \<Rightarrow> attribute list \<Rightarrow> variant list \<Rightarrow> snapshot_record \<Rightarrow> node_ptr \<Rightarrow> snapshot_record" where
  "make_record n attr data b parent =
     sb_append_branch parent (fold sb_append (take n (zip attr data)) b)"

text \<open>
  Modelled from the spec: \<^verbatim>\<open>Caliper::pull_context\<close>, not among the sources; the calling
  thread's current node as a context branch.
\<close>

definition pull_context :: "node_ptr \<Rightarrow> snapshot_record \<Rightarrow> snapshot_record" where
  "pull_context ctx b = sb_append_branch ctx b"

text \<open>
  Modelled from the spec: \<^verbatim>\<open>process_snapshot\<close> of the channel's events (section 4.5), not
  among the sources; the record is handed to the channel's subscribers.
\<close>

definition process_snapshot :: "string \<Rightarrow> snapshot_record \<Rightarrow> caliper \<Rightarrow> caliper" where
  "process_snapshot channel r c = c\<lparr>processed := processed c @ [(channel, r)]\<rparr>"

text \<open>
  Modelled from the spec: the process-wide log (\<^verbatim>\<open>Log(level).stream() << ...\<close>), not among
  the sources; a message is kept with its level.
\<close>

definition cali_log :: "nat \<Rightarrow> log_message \<Rightarrow> caliper \<Rightarrow> caliper" where
  "cali_log level msg c = c\<lparr>log_stream := log_stream c @ [(level, msg)]\<rparr>"

text \<open>Modelled from the spec: \<^verbatim>\<open>cali_make_variant_from_uint\<close>, not among the sources.\<close>

definition cali_make_variant_from_uint :: "64 word \<Rightarrow> variant" where
  "cali_make_variant_from_uint v = V_uint v"

section \<open>The vendor library\<close>

text \<open>
  The roctracer and HIP headers are external: their constants and functions are
  parameters of the model. \<^verbatim>\<open>util::demangle\<close> is taken the same way. A record pointer
  is an address; \<^verbatim>\<open>roctracer_next_record\<close> returns its status and the address it
  writes to its second argument.
\<close>

record roctracer_lib =
  ACTIVITY_DOMAIN_HIP_API :: "32 word"
  ACTIVITY_DOMAIN_HIP_OPS :: "32 word"
  ACTIVITY_DOMAIN_HCC_OPS :: "32 word"
  HIP_OP_ID_COPY :: "32 word"
  HIP_API_ID___hipPushCallConfiguration :: "32 word"
  HIP_API_ID___hipPopCallConfiguration :: "32 word"
  HIP_API_ID_hipLaunchKernel :: "32 word"
  HIP_API_ID_hipExtLaunchKernel :: "32 word"
  HIP_API_ID_hipModuleLaunchKernel :: "32 word"
  HIP_API_ID_hipExtModuleLaunchKernel :: "32 word"
  HIP_API_ID_hipHccModuleLaunchKernel :: "32 word"
  roctracer_op_string :: "32 word \<Rightarrow> 32 word \<Rightarrow> 32 word \<Rightarrow> string"
  hipKernelNameRefByPtr :: "64 word \<Rightarrow> 64 word \<Rightarrow> string"
  hipKernelNameRef :: "64 word \<Rightarrow> string"
  demangle :: "string \<Rightarrow> string"
  roctracer_next_record :: "nat \<Rightarrow> int \<times> nat"

datatype api_phase = ACTIVITY_API_PHASE_ENTER | ACTIVITY_API_PHASE_EXIT

text \<open>The fields of \<^verbatim>\<open>hip_api_data_t\<close> that the callback reads.\<close>

record hip_api_data =
  d_phase :: api_phase
  d_correlation_id :: "64 word"
  d_function_address :: "64 word"
  d_stream :: "64 word"
  d_f :: "64 word"

text \<open>The fields of \<^verbatim>\<open>roctracer_record_t\<close> that the flush reads.\<close>

record roctracer_record =
  r_domain :: "32 word"
  r_op :: "32 word"
  r_kind :: "32 word"
  r_correlation_id :: "64 word"
  r_begin_ns :: "64 word"
  r_end_ns :: "64 word"
  r_device_id :: "32 word"
  r_queue_id :: "64 word"
  r_bytes :: "64 word"

record channel =
  ch_name :: string
  ch_trace_activities :: bool
  ch_record_kernel_names :: bool

section \<open>The roctracer service instance\<close>

text \<open>
  The members of \<^verbatim>\<open>class RocTracerService\<close>. The counters are \<^verbatim>\<open>unsigned\<close>, the
  correlation map is a \<^verbatim>\<open>std::map<uint64_t, cali::Node*>\<close>, the channel is kept by its name.
  The mutex guarding the map has no counterpart: every operation of the model is atomic.
\<close>

record roctracer_service =
  m_api_attr :: attribute
  m_activity_start_attr :: attribute
  m_activity_end_attr :: attribute
  m_activity_duration_attr :: attribute
  m_activity_name_attr :: attribute
  m_activity_queue_id_attr :: attribute
  m_activity_device_id_attr :: attribute
  m_activity_bytes_attr :: attribute
  m_kernel_name_attr :: attribute
  m_flush_region_attr :: attribute
  m_num_records :: "32 word"
  m_num_flushed :: "32 word"
  m_num_flushes :: "32 word"
  m_num_correlations_stored :: "32 word"
  m_num_correlations_found :: "32 word"
  m_num_correlations_missed :: "32 word"
  m_correlation_map :: "64 word \<rightharpoonup> node_ptr"
  m_roctracer_pool :: "nat option"
  m_channel :: string
  m_enable_tracing :: bool
  m_record_names :: bool

subsection \<open>The correlation store\<close>

text \<open>\<^verbatim>\<open>push_correlation\<close>: \<^verbatim>\<open>m_correlation_map[cor_id] = node\<close>.\<close>

definition push_correlation ::
  "64 word \<Rightarrow> node_ptr \<Rightarrow> roctracer_service \<Rightarrow> roctracer_service" where
  "push_correlation cor_id node s = s\<lparr>m_correlation_map := (m_correlation_map s)(cor_id \<mapsto> node)\<rparr>"

text \<open>
  \<^verbatim>\<open>pop_correlation\<close>: \<^verbatim>\<open>find\<close> the id; when found, return the mapped pointer and
  \<^verbatim>\<open>erase\<close> the entry; otherwise return \<^verbatim>\<open>nullptr\<close> and leave the map alone.
\<close>

definition pop_correlation ::
  "64 word \<Rightarrow> roctracer_service \<Rightarrow> node_ptr \<times> roctracer_service" where
  "pop_correlation cor_id s =
     (case m_correlation_map s cor_id of
        Some ret \<Rightarrow> (ret, s\<lparr>m_correlation_map := (m_correlation_map s)(cor_id := None)\<rparr>)
      | None \<Rightarrow> (Null, s))"

text \<open>
  A sequence of store operations on the correlation map, as the application thread
  (stores) and the flush thread (takes) issue them under the mutex.
\<close>

datatype corr_op = Store "64 word" node_ptr | Take "64 word"

fun corr_op_id :: "corr_op \<Rightarrow> 64 word" where
  "corr_op_id (Store i n) = i"
| "corr_op_id (Take i) = i"

fun run_corr_op :: "corr_op \<Rightarrow> roctracer_service \<Rightarrow> roctracer_service" where
  "run_corr_op (Store i n) s = push_correlation i n s"
| "run_corr_op (Take i) s = snd (pop_correlation i s)"

fun run_corr_ops :: "corr_op list \<Rightarrow> roctracer_service \<Rightarrow> roctracer_service" where
  "run_corr_ops [] s = s"
| "run_corr_ops (x # xs) s = run_corr_ops xs (run_corr_op x s)"

subsection \<open>Construction\<close>

text \<open>
  The constructor: counters at zero, an empty correlation map, no pool, the two switches
  read from the channel's configuration, then \<^verbatim>\<open>create_callback_attributes\<close> and
  \<^verbatim>\<open>create_activity_attributes\<close>.
\<close>

definition RocTracerService :: "channel \<Rightarrow> roctracer_service" where
  "RocTracerService ch =
     \<lparr>m_api_attr =
        create_attribute ''rocm.api'' CALI_TYPE_STRING [CALI_ATTR_NESTED]
          [(''subscription_event'', V_bool True)],
      m_activity_start_attr =
        create_attribute ''rocm.starttime'' CALI_TYPE_UINT
          [CALI_ATTR_ASVALUE, CALI_ATTR_SKIP_EVENTS] [],
      m_activity_end_attr =
        create_attribute ''rocm.endtime'' CALI_TYPE_UINT
          [CALI_ATTR_ASVALUE, CALI_ATTR_SKIP_EVENTS] [],
      m_activity_duration_attr =
        create_attribute ''rocm.activity.duration'' CALI_TYPE_UINT
          [CALI_ATTR_ASVALUE, CALI_ATTR_SKIP_EVENTS] [(''class.aggregatable'', V_bool True)],
      m_activity_name_attr =
        create_attribute ''rocm.activity'' CALI_TYPE_STRING [CALI_ATTR_SKIP_EVENTS] [],
      m_activity_queue_id_attr =
        create_attribute ''rocm.activity.queue'' CALI_TYPE_UINT [CALI_ATTR_SKIP_EVENTS] [],
      m_activity_device_id_attr =
        create_attribute ''rocm.activity.device'' CALI_TYPE_UINT [CALI_ATTR_SKIP_EVENTS] [],
      m_activity_bytes_attr =
        create_attribute ''rocm.activity.bytes'' CALI_TYPE_UINT [CALI_ATTR_SKIP_EVENTS] [],
      m_kernel_name_attr =
        create_attribute ''rocm.kernel.name'' CALI_TYPE_STRING [CALI_ATTR_SKIP_EVENTS] [],
      m_flush_region_attr =
        create_attribute ''roctracer.flush'' CALI_TYPE_STRING [CALI_ATTR_DEFAULT] [],
      m_num_records = 0,
      m_num_flushed = 0,
      m_num_flushes = 0,
      m_num_correlations_stored = 0,
      m_num_correlations_found = 0,
      m_num_correlations_missed = 0,
      m_correlation_map = Map.empty,
      m_roctracer_pool = None,
      m_channel = ch_name ch,
      m_enable_tracing = ch_trace_activities ch,
      m_record_names = ch_record_kernel_names ch\<rparr>"

subsection \<open>The API callback\<close>

text \<open>The \<^verbatim>\<open>switch (cid)\<close> that looks the kernel name up.\<close>

definition kernel_name_of :: "roctracer_lib \<Rightarrow> 32 word \<Rightarrow> hip_api_data \<Rightarrow> string" where
  "kernel_name_of lib cid data =
     (if cid = HIP_API_ID_hipLaunchKernel lib \<or> cid = HIP_API_ID_hipExtLaunchKernel lib
      then hipKernelNameRefByPtr lib (d_function_address data) (d_stream data)
      else if cid = HIP_API_ID_hipModuleLaunchKernel lib
            \<or> cid = HIP_API_ID_hipExtModuleLaunchKernel lib
            \<or> cid = HIP_API_ID_hipHccModuleLaunchKernel lib
      then hipKernelNameRef lib (d_f data)
      else [])"

text \<open>
  \<^verbatim>\<open>hip_api_callback\<close>, run on the thread that makes the API call: the state is the
  instance, the runtime and the calling thread's current node.
\<close>

definition hip_api_callback ::
  "roctracer_lib \<Rightarrow> 32 word \<Rightarrow> 32 word \<Rightarrow> hip_api_data \<Rightarrow>
   roctracer_service \<times> caliper \<times> node_ptr \<Rightarrow> roctracer_service \<times> caliper \<times> node_ptr" where
  "hip_api_callback lib domain cid data st =
     (case st of (inst, c, ctx) \<Rightarrow>
       if cid = HIP_API_ID___hipPushCallConfiguration lib
          \<or> cid = HIP_API_ID___hipPopCallConfiguration lib
       then st
       else if d_phase data = ACTIVITY_API_PHASE_ENTER then
         (case cali_begin (m_api_attr inst)
                 (V_string (roctracer_op_string lib (ACTIVITY_DOMAIN_HIP_API lib) cid 0)) (c, ctx) of
            (c1, ctx1) \<Rightarrow>
              if m_enable_tracing inst then
                (let kernel = (if m_record_names inst then kernel_name_of lib cid data else []);
                     e = cali_get (m_api_attr inst) c1 ctx1;
                     node0 = (if is_reference e then entry_node e else Null)
                 in case (if kernel \<noteq> []
                          then make_tree_entry (m_kernel_name_attr inst)
                                 (V_string (demangle lib kernel)) node0 c1
                          else (c1, node0)) of
                      (c2, node) \<Rightarrow>
                        if node \<noteq> Null
                        then ((push_correlation (d_correlation_id data) node inst)
                                \<lparr>m_num_correlations_stored := m_num_correlations_stored inst + 1\<rparr>,
                              c2, ctx1)
                        else (inst, c2, ctx1))
              else (inst, c1, ctx1))
       else
         (case cali_end (m_api_attr inst) (c, ctx) of (c1, ctx1) \<Rightarrow> (inst, c1, ctx1)))"

subsection \<open>Flushing activity records\<close>

text \<open>
  The seven attributes and the seven values that \<^verbatim>\<open>flush_record\<close> sets up. The device id
  is an \<^verbatim>\<open>int\<close> in the vendor's record and is converted to \<^verbatim>\<open>uint64_t\<close>.
\<close>

definition activity_attr :: "roctracer_service \<Rightarrow> attribute list" where
  "activity_attr s =
     [m_activity_name_attr s, m_activity_start_attr s, m_activity_end_attr s,
      m_activity_duration_attr s, m_activity_device_id_attr s, m_activity_queue_id_attr s,
      m_activity_bytes_attr s]"

definition activity_data :: "roctracer_lib \<Rightarrow> roctracer_record \<Rightarrow> variant list" where
  "activity_data lib r =
     [V_string (roctracer_op_string lib (r_domain r) (r_op r) (r_kind r)),
      cali_make_variant_from_uint (r_begin_ns r),
      cali_make_variant_from_uint (r_end_ns r),
      cali_make_variant_from_uint (r_end_ns r - r_begin_ns r),
      cali_make_variant_from_uint (scast (r_device_id r)),
      cali_make_variant_from_uint (r_queue_id r),
      V_empty]"

text \<open>
  \<^verbatim>\<open>flush_record\<close>: a record of the two operation domains is turned into one snapshot and
  counts as one; any other record is left alone and counts as none.
\<close>

definition flush_record ::
  "roctracer_lib \<Rightarrow> roctracer_record \<Rightarrow> roctracer_service \<times> caliper \<Rightarrow>
   32 word \<times> roctracer_service \<times> caliper" where
  "flush_record lib r st =
     (case st of (s, c) \<Rightarrow>
       if r_domain r = ACTIVITY_DOMAIN_HIP_OPS lib \<or> r_domain r = ACTIVITY_DOMAIN_HCC_OPS lib
       then
         (let attr = activity_attr s;
              data0 = activity_data lib r;
              (num, data) =
                 (if r_op r = HIP_OP_ID_COPY lib
                  then (7, data0[6 := cali_make_variant_from_uint (r_bytes r)])
                  else (6, data0))
          in case pop_correlation (r_correlation_id r) s of
               (parent, s1) \<Rightarrow>
                 (let s2 = (if parent \<noteq> Null
                            then s1\<lparr>m_num_correlations_found := m_num_correlations_found s1 + 1\<rparr>
                            else s1\<lparr>m_num_correlations_missed := m_num_correlations_missed s1 + 1\<rparr>);
                      snap = make_record num attr data (FixedSizeSnapshotRecord 8) parent
                  in (1, s2, process_snapshot (m_channel s2) snap c)))
       else (0, s, c))"

text \<open>
  The \<^verbatim>\<open>while (record < end_record)\<close> loop of \<^verbatim>\<open>flush_activity_records\<close>. Whether it
  ends depends on what the vendor's \<^verbatim>\<open>roctracer_next_record\<close> returns, so the loop is a
  partial function: \<open>None\<close> is a loop that never leaves. The memory is a function from
  addresses to the records found there. The loop state is
  \<open>(num_flushed, num_records, instance, runtime)\<close>.
\<close>

partial_function (option) flush_loop ::
  "roctracer_lib \<Rightarrow> (nat \<Rightarrow> roctracer_record) \<Rightarrow> nat \<Rightarrow> nat \<Rightarrow>
   32 word \<times> 32 word \<times> roctracer_service \<times> caliper \<Rightarrow>
   (32 word \<times> 32 word \<times> roctracer_service \<times> caliper) option" where
  "flush_loop lib mem end_record record st =
     (if record < end_record then
        (case st of (num_flushed, num_records, s, c) \<Rightarrow>
           (case flush_record lib (mem record) (s, c) of (n, s1, c1) \<Rightarrow>
              (case roctracer_next_record lib record of (status, next_record) \<Rightarrow>
                 if status \<noteq> 0
                 then Some (num_flushed + n, num_records + 1, s1, c1)
                 else flush_loop lib mem end_record next_record
                        (num_flushed + n, num_records + 1, s1, c1))))
      else Some st)"

declare flush_loop.simps [code]

text \<open>
  \<^verbatim>\<open>flush_activity_records\<close>, run on the thread that delivers the buffer: the flush
  region is begun, the records are drained, the numbers of the buffer are logged at
  verbosity 2 and added to the instance's counters, the flush region is ended.
\<close>

definition flush_activity_records ::
  "roctracer_lib \<Rightarrow> (nat \<Rightarrow> roctracer_record) \<Rightarrow> nat \<Rightarrow> nat \<Rightarrow>
   roctracer_service \<times> caliper \<times> node_ptr \<Rightarrow> (roctracer_service \<times> caliper \<times> node_ptr) option" where
  "flush_activity_records lib mem begin_addr end_addr st =
     (case st of (s, c, ctx) \<Rightarrow>
       (case cali_begin (m_flush_region_attr s) (V_string ''ROCTRACER FLUSH'') (c, ctx) of
          (c1, ctx1) \<Rightarrow>
            (case flush_loop lib mem end_addr begin_addr (0, 0, s, c1) of
               None \<Rightarrow> None
             | Some (num_flushed, num_records, s1, c2) \<Rightarrow>
                 (let c3 = (if verbosity c2 \<ge> 2
                            then cali_log 2 (LOG_flushed (m_channel s1) num_records num_flushed
                                              (num_records - num_flushed)) c2
                            else c2);
                      s2 = s1\<lparr>m_num_flushed := m_num_flushed s1 + num_flushed,
                              m_num_records := m_num_records s1 + num_records,
                              m_num_flushes := m_num_flushes s1 + 1\<rparr>
                  in case cali_end (m_flush_region_attr s2) (c3, ctx1) of
                       (c4, ctx2) \<Rightarrow> Some (s2, c4, ctx2)))))"

text \<open>\<^verbatim>\<open>rt_activity_callback\<close>, the buffer callback the vendor runtime invokes.\<close>

definition rt_activity_callback ::
  "roctracer_lib \<Rightarrow> (nat \<Rightarrow> roctracer_record) \<Rightarrow> nat \<Rightarrow> nat \<Rightarrow>
   roctracer_service \<times> caliper \<times> node_ptr \<Rightarrow> (roctracer_service \<times> caliper \<times> node_ptr) option" where
  "rt_activity_callback lib mem begin_addr end_addr st =
     (case flush_activity_records lib mem begin_addr end_addr st of
        None \<Rightarrow> None
      | Some (s, c, ctx) \<Rightarrow>
          Some (s,
                (if verbosity c \<ge> 2
                 then cali_log 2 (LOG_processed (m_channel s) (int end_addr - int begin_addr)) c
                 else c),
                ctx))"

subsection \<open>Registration\<close>

text \<open>
  The static \<^verbatim>\<open>s_instance\<close> pointer and the objects made with \<^verbatim>\<open>new\<close>: \<open>Some i\<close> is
  the address of \<open>instances ! i\<close>. The callbacks that \<^verbatim>\<open>register_roctracer\<close> connects are
  kept as the list of (channel, event) pairs they were connected to.
\<close>

datatype event_kind = POST_INIT_EVT | PRE_FINISH_EVT | FINISH_EVT

record process =
  s_instance :: "nat option"
  instances :: "roctracer_service list"
  connected :: "(string \<times> event_kind) list"

definition register_roctracer :: "channel \<Rightarrow> process \<times> caliper \<Rightarrow> process \<times> caliper" where
  "register_roctracer ch st =
     (case st of (p, c) \<Rightarrow>
       (let c1 = (if s_instance p \<noteq> None
                  then cali_log 0 (LOG_already_active (ch_name ch)) c
                  else c);
            p1 = p\<lparr>instances := instances p @ [RocTracerService ch],
                   s_instance := Some (length (instances p))\<rparr>;
            p2 = p1\<lparr>connected := connected p1 @
                   [(ch_name ch, POST_INIT_EVT), (ch_name ch, PRE_FINISH_EVT),
                    (ch_name ch, FINISH_EVT)]\<rparr>
        in (p2, cali_log 1 (LOG_registered (ch_name ch)
                              (m_enable_tracing (instances p2 ! the (s_instance p2)))) c1)))"

section \<open>The Umpire statistics service\<close>

text \<open>
  What the service reads of an \<^verbatim>\<open>umpire::Allocator\<close> and of the
  \<^verbatim>\<open>umpire::ResourceManager\<close>, both external. The four numbers are held in
  \<^verbatim>\<open>uint64_t\<close> variables.
\<close>

record allocator =
  getActualSize :: "64 word"
  getCurrentSize :: "64 word"
  getHighWatermark :: "64 word"
  getAllocationCount :: "64 word"

record resource_manager =
  getAllocatorNames :: "string list"
  getAllocator :: "string \<Rightarrow> allocator"

text \<open>
  The members of \<^verbatim>\<open>class UmpireService\<close>; \<open>m_root_node\<close> is the address of the
  service's own root node object, so that \<^verbatim>\<open>&m_root_node\<close> is \<open>NodeRef (m_root_node u)\<close>.
\<close>

record umpire_service =
  m_alloc_name_attr :: attribute
  m_alloc_current_size_attr :: attribute
  m_alloc_actual_size_attr :: attribute
  m_alloc_hwm_attr :: attribute
  m_alloc_count_attr :: attribute
  m_total_size_attr :: attribute
  m_total_count_attr :: attribute
  m_root_node :: nat
  m_per_allocator_stats :: bool

text \<open>
  The constructor with \<^verbatim>\<open>create_attributes\<close>: \<open>root\<close> is the address of the root node
  member, \<open>per_allocator_statistics\<close> the value of the configuration entry of this name.
\<close>

definition UmpireService :: "nat \<Rightarrow> bool \<Rightarrow> umpire_service" where
  "UmpireService root per_allocator_statistics =
     \<lparr>m_alloc_name_attr =
        create_attribute ''umpire.alloc.name'' CALI_TYPE_STRING [CALI_ATTR_SKIP_EVENTS] [],
      m_alloc_current_size_attr =
        create_attribute ''umpire.alloc.current.size'' CALI_TYPE_UINT
          [CALI_ATTR_ASVALUE, CALI_ATTR_SKIP_EVENTS] [(''class.aggregatable'', V_bool True)],
      m_alloc_actual_size_attr =
        create_attribute ''umpire.alloc.actual.size'' CALI_TYPE_UINT
          [CALI_ATTR_ASVALUE, CALI_ATTR_SKIP_EVENTS] [(''class.aggregatable'', V_bool True)],
      m_alloc_hwm_attr =
        create_attribute ''umpire.alloc.highwatermark'' CALI_TYPE_UINT
          [CALI_ATTR_ASVALUE, CALI_ATTR_SKIP_EVENTS] [(''class.aggregatable'', V_bool True)],
      m_alloc_count_attr =
        create_attribute ''umpire.alloc.count'' CALI_TYPE_UINT
          [CALI_ATTR_ASVALUE, CALI_ATTR_SKIP_EVENTS] [(''class.aggregatable'', V_bool True)],
      m_total_size_attr =
        create_attribute ''umpire.total.size'' CALI_TYPE_UINT
          [CALI_ATTR_ASVALUE, CALI_ATTR_SKIP_EVENTS] [(''class.aggregatable'', V_bool True)],
      m_total_count_attr =
        create_attribute ''umpire.total.count'' CALI_TYPE_UINT
          [CALI_ATTR_ASVALUE, CALI_ATTR_SKIP_EVENTS] [(''class.aggregatable'', V_bool True)],
      m_root_node = root,
      m_per_allocator_stats = per_allocator_statistics\<rparr>"

text \<open>
  \<^verbatim>\<open>process_allocator\<close>: one record of capacity 64 that takes the context over, gets the
  five fields of the allocator and is handed to \<^verbatim>\<open>process_snapshot\<close>.
\<close>

definition allocator_record ::
  "umpire_service \<Rightarrow> string \<Rightarrow> allocator \<Rightarrow> snapshot_record \<Rightarrow> snapshot_record" where
  "allocator_record u name alloc context =
     (let actual_size = getActualSize alloc;
          current_size = getCurrentSize alloc;
          hwm = getHighWatermark alloc;
          count = getAllocationCount alloc;
          attr = [m_alloc_name_attr u, m_alloc_actual_size_attr u, m_alloc_current_size_attr u,
                  m_alloc_hwm_attr u, m_alloc_count_attr u];
          data = [V_string name, V_uint actual_size, V_uint current_size, V_uint hwm, V_uint count]
      in make_record 5 attr data (sb_append_view context (FixedSizeSnapshotRecord 64))
           (NodeRef (m_root_node u)))"

definition process_allocator ::
  "umpire_service \<Rightarrow> string \<Rightarrow> string \<Rightarrow> allocator \<Rightarrow> snapshot_record \<Rightarrow> caliper \<Rightarrow> caliper" where
  "process_allocator u channel name alloc context c =
     process_snapshot channel (allocator_record u name alloc context) c"

text \<open>
  The loop of \<^verbatim>\<open>snapshot\<close> over \<^verbatim>\<open>rm.getAllocatorNames()\<close>; its state is
  \<open>(total_size, total_count, runtime)\<close>.
\<close>

fun snapshot_loop ::
  "resource_manager \<Rightarrow> umpire_service \<Rightarrow> string \<Rightarrow> snapshot_record \<Rightarrow> string list \<Rightarrow>
   64 word \<times> 64 word \<times> caliper \<Rightarrow> 64 word \<times> 64 word \<times> caliper" where
  "snapshot_loop rm u channel context [] st = st"
| "snapshot_loop rm u channel context (s # names) (total_size, total_count, c) =
     (let alloc = getAllocator rm s
      in snapshot_loop rm u channel context names
           (total_size + getCurrentSize alloc,
            total_count + getAllocationCount alloc,
            (if m_per_allocator_stats u then process_allocator u channel s alloc context c else c)))"

text \<open>
  \<^verbatim>\<open>snapshot\<close>, the callback connected to the channel's snapshot event: \<open>info\<close> is the
  trigger information, \<open>ctx\<close> the calling thread's current node, \<open>snapshot_rec\<close> the
  builder of the subscriber.
\<close>

definition snapshot ::
  "resource_manager \<Rightarrow> umpire_service \<Rightarrow> string \<Rightarrow> snapshot_record \<Rightarrow> caliper \<times> node_ptr \<Rightarrow>
   snapshot_record \<Rightarrow> caliper \<times> snapshot_record" where
  "snapshot rm u channel info st snapshot_rec =
     (case st of (c, ctx) \<Rightarrow>
       (let context0 = FixedSizeSnapshotRecord 60;
            context = (if m_per_allocator_stats u
                       then pull_context ctx (sb_append_view info context0)
                       else context0)
        in case snapshot_loop rm u channel context (getAllocatorNames rm) (0, 0, c) of
             (total_size, total_count, c1) \<Rightarrow>
               (c1, sb_append (m_total_count_attr u, V_uint total_count)
                      (sb_append (m_total_size_attr u, V_uint total_size) snapshot_rec))))"

section \<open>Reading results, and concrete inputs\<close>

text \<open>A record is recognized by \<^verbatim>\<open>flush_record\<close> when it is of one of the two operation domains.\<close>

definition is_ops_record :: "roctracer_lib \<Rightarrow> roctracer_record \<Rightarrow> bool" where
  "is_ops_record lib r =
     (r_domain r = ACTIVITY_DOMAIN_HIP_OPS lib \<or> r_domain r = ACTIVITY_DOMAIN_HCC_OPS lib)"

text \<open>The fields that \<^verbatim>\<open>flush_record\<close> hands to \<^verbatim>\<open>make_record\<close> for a record: six, or seven for a copy.\<close>

definition record_fields ::
  "roctracer_lib \<Rightarrow> roctracer_service \<Rightarrow> roctracer_record \<Rightarrow> (attribute \<times> variant) list" where
  "record_fields lib s r =
     (if r_op r = HIP_OP_ID_COPY lib
      then zip (activity_attr s) ((activity_data lib r)[6 := cali_make_variant_from_uint (r_bytes r)])
      else take 6 (zip (activity_attr s) (activity_data lib r)))"

text \<open>
  The record-linking order of a buffer as the vendor's accessor gives it: \<open>visited lib e r as\<close>
  holds when \<open>as\<close> lists the addresses met from \<open>r\<close> on, each one the address that
  \<^verbatim>\<open>roctracer_next_record\<close> returned for the one before, up to the first address that
  is not below the end \<open>e\<close> or up to the first record at which the accessor fails.
\<close>

fun visited :: "roctracer_lib \<Rightarrow> nat \<Rightarrow> nat \<Rightarrow> nat list \<Rightarrow> bool" where
  "visited lib e r [] = (\<not> r < e)"
| "visited lib e r (a # as) =
     (r < e \<and> a = r \<and>
      (if fst (roctracer_next_record lib r) \<noteq> 0 then as = []
       else visited lib e (snd (roctracer_next_record lib r)) as))"

text \<open>
  What \<^verbatim>\<open>flush_record\<close> is expected to do with a recognized record: the instance after the
  take and the count of its outcome, and the snapshot built from the record's fields and
  the pointer the take returned.
\<close>

definition count_take :: "node_ptr \<times> roctracer_service \<Rightarrow> roctracer_service" where
  "count_take res =
     (if fst res \<noteq> Null
      then (snd res)\<lparr>m_num_correlations_found := m_num_correlations_found (snd res) + 1\<rparr>
      else (snd res)\<lparr>m_num_correlations_missed := m_num_correlations_missed (snd res) + 1\<rparr>)"

definition activity_snapshot ::
  "roctracer_lib \<Rightarrow> roctracer_service \<Rightarrow> roctracer_record \<Rightarrow> node_ptr \<Rightarrow> snapshot_record" where
  "activity_snapshot lib s r parent =
     \<lparr>sb_capacity = 8, sb_fields = record_fields lib s r,
      sb_context = (case parent of Null \<Rightarrow> [] | NodeRef i \<Rightarrow> [NodeRef i]), sb_skipped = 0\<rparr>"

text \<open>\<^verbatim>\<open>flush_record\<close> applied to the records at a list of addresses, one after the other.\<close>

fun flush_records ::
  "roctracer_lib \<Rightarrow> (nat \<Rightarrow> roctracer_record) \<Rightarrow> nat list \<Rightarrow>
   32 word \<times> 32 word \<times> roctracer_service \<times> caliper \<Rightarrow>
   32 word \<times> 32 word \<times> roctracer_service \<times> caliper" where
  "flush_records lib mem [] st = st"
| "flush_records lib mem (a # as) (num_flushed, num_records, s, c) =
     (case flush_record lib (mem a) (s, c) of
        (n, s1, c1) \<Rightarrow> flush_records lib mem as (num_flushed + n, num_records + 1, s1, c1))"

text \<open>
  The instance after the takes of the recognized records of a list, and the snapshots
  dispatched for them: the closed form of \<open>flush_records\<close>.
\<close>

fun takes :: "roctracer_lib \<Rightarrow> roctracer_record list \<Rightarrow> roctracer_service \<Rightarrow> roctracer_service" where
  "takes lib [] s = s"
| "takes lib (r # rs) s =
     takes lib rs
       (if is_ops_record lib r then count_take (pop_correlation (r_correlation_id r) s) else s)"

fun snapshots_of ::
  "roctracer_lib \<Rightarrow> roctracer_record list \<Rightarrow> roctracer_service \<Rightarrow>
   (string \<times> snapshot_record) list" where
  "snapshots_of lib [] s = []"
| "snapshots_of lib (r # rs) s =
     (if is_ops_record lib r
      then (m_channel s, activity_snapshot lib s r (fst (pop_correlation (r_correlation_id r) s)))
             # snapshots_of lib rs (count_take (pop_correlation (r_correlation_id r) s))
      else snapshots_of lib rs s)"

text \<open>
  The state that \<^verbatim>\<open>flush_activity_records\<close> leaves when the loop has met the records
  \<open>rs\<close>, in this order.
\<close>

definition flush_outcome ::
  "roctracer_lib \<Rightarrow> roctracer_record list \<Rightarrow> roctracer_service \<times> caliper \<times> node_ptr \<Rightarrow>
   roctracer_service \<times> caliper \<times> node_ptr" where
  "flush_outcome lib rs st =
     (case st of (s, c, ctx) \<Rightarrow>
        (let num_records = of_nat (length rs);
             num_flushed = of_nat (length (filter (is_ops_record lib) rs));
             c2 = c\<lparr>nodes := nodes c @
                       [\<lparr>node_attr = m_flush_region_attr s,
                         node_value = V_string ''ROCTRACER FLUSH'', node_parent = ctx\<rparr>],
                     processed := processed c @ snapshots_of lib rs s\<rparr>
         in ((takes lib rs s)
               \<lparr>m_num_flushed := m_num_flushed s + num_flushed,
                m_num_records := m_num_records s + num_records,
                m_num_flushes := m_num_flushes s + 1\<rparr>,
             (if verbosity c \<ge> 2
              then cali_log 2 (LOG_flushed (m_channel s) num_records num_flushed
                                 (num_records - num_flushed)) c2
              else c2),
             ctx)))"

text \<open>The fields of a dispatched record.\<close>

definition dispatched_fields :: "string \<times> snapshot_record \<Rightarrow> (attribute \<times> variant) list" where
  "dispatched_fields p = sb_fields (snd p)"

text \<open>The six counters of an instance, in the order of their declaration.\<close>

definition counters ::
  "roctracer_service \<Rightarrow> 32 word \<times> 32 word \<times> 32 word \<times> 32 word \<times> 32 word \<times> 32 word" where
  "counters s =
     (m_num_records s, m_num_flushed s, m_num_flushes s,
      m_num_correlations_stored s, m_num_correlations_found s, m_num_correlations_missed s)"

definition result_counters ::
  "(roctracer_service \<times> caliper \<times> node_ptr) option \<Rightarrow>
   (32 word \<times> 32 word \<times> 32 word \<times> 32 word \<times> 32 word \<times> 32 word) option" where
  "result_counters res = map_option (\<lambda>(s, c, ctx). counters s) res"

definition result_processed ::
  "(roctracer_service \<times> caliper \<times> node_ptr) option \<Rightarrow> (string \<times> snapshot_record) list option" where
  "result_processed res = map_option (\<lambda>(s, c, ctx). processed c) res"

definition result_log ::
  "(roctracer_service \<times> caliper \<times> node_ptr) option \<Rightarrow> (nat \<times> log_message) list option" where
  "result_log res = map_option (\<lambda>(s, c, ctx). log_stream c) res"

text \<open>
  A vendor library with the constants set to sample values, every API call named
  \<^verbatim>\<open>matmul\<close>, and records of a fixed stride of one address; and the same library with an
  accessor that fails at the record at address 0.
\<close>

definition example_lib :: roctracer_lib where
  "example_lib =
     \<lparr>ACTIVITY_DOMAIN_HIP_API = 3,
      ACTIVITY_DOMAIN_HIP_OPS = 2,
      ACTIVITY_DOMAIN_HCC_OPS = 2,
      HIP_OP_ID_COPY = 1,
      HIP_API_ID___hipPushCallConfiguration = 10,
      HIP_API_ID___hipPopCallConfiguration = 11,
      HIP_API_ID_hipLaunchKernel = 12,
      HIP_API_ID_hipExtLaunchKernel = 13,
      HIP_API_ID_hipModuleLaunchKernel = 14,
      HIP_API_ID_hipExtModuleLaunchKernel = 15,
      HIP_API_ID_hipHccModuleLaunchKernel = 16,
      roctracer_op_string = (\<lambda>d op k. if d = 3 then ''matmul'' else ''KernelExecution''),
      hipKernelNameRefByPtr = (\<lambda>a s. ''_Z6kernelPf''),
      hipKernelNameRef = (\<lambda>f. ''_Z6kernelPf''),
      demangle = (\<lambda>s. s),
      roctracer_next_record = (\<lambda>r. (0, Suc r))\<rparr>"

definition failing_lib :: roctracer_lib where
  "failing_lib = example_lib\<lparr>roctracer_next_record := (\<lambda>r. (if r = 0 then 1 else 0, Suc r))\<rparr>"

definition example_channel :: channel where
  "example_channel = \<lparr>ch_name = ''default'', ch_trace_activities = True, ch_record_kernel_names = False\<rparr>"

definition other_channel :: channel where
  "other_channel = \<lparr>ch_name = ''second'', ch_trace_activities = False, ch_record_kernel_names = False\<rparr>"

definition example_caliper :: caliper where
  "example_caliper = \<lparr>nodes = [], processed = [], usage_errors = [], verbosity = 2, log_stream = []\<rparr>"

definition enter_data :: hip_api_data where
  "enter_data = \<lparr>d_phase = ACTIVITY_API_PHASE_ENTER, d_correlation_id = 42,
                 d_function_address = 0, d_stream = 0, d_f = 0\<rparr>"

definition exit_data :: hip_api_data where
  "exit_data = \<lparr>d_phase = ACTIVITY_API_PHASE_EXIT, d_correlation_id = 42,
                d_function_address = 0, d_stream = 0, d_f = 0\<rparr>"

text \<open>
  Three activity records: a kernel execution with correlation id 42 that takes 500 ns, a
  kernel execution with correlation id 99, and a record of a domain the service does not
  flush.
\<close>

definition kernel_record :: roctracer_record where
  "kernel_record = \<lparr>r_domain = 2, r_op = 0, r_kind = 0, r_correlation_id = 42,
                    r_begin_ns = 1000, r_end_ns = 1500, r_device_id = 0, r_queue_id = 1, r_bytes = 0\<rparr>"

definition unmatched_record :: roctracer_record where
  "unmatched_record = \<lparr>r_domain = 2, r_op = 0, r_kind = 0, r_correlation_id = 99,
                       r_begin_ns = 2000, r_end_ns = 2100, r_device_id = 0, r_queue_id = 1, r_bytes = 0\<rparr>"

definition foreign_record :: roctracer_record where
  "foreign_record = \<lparr>r_domain = 0, r_op = 0, r_kind = 0, r_correlation_id = 7,
                     r_begin_ns = 0, r_end_ns = 0, r_device_id = 0, r_queue_id = 0, r_bytes = 0\<rparr>"

definition kernel_memory :: "nat \<Rightarrow> roctracer_record" where
  "kernel_memory a = (if a = 0 then kernel_record else unmatched_record)"

definition foreign_memory :: "nat \<Rightarrow> roctracer_record" where
  "foreign_memory a = foreign_record"

definition mixed_memory :: "nat \<Rightarrow> roctracer_record" where
  "mixed_memory a =
     (if a = 0 then kernel_record else if a = 1 then foreign_record else unmatched_record)"

definition example_state :: "roctracer_service \<times> caliper \<times> node_ptr" where
  "example_state = (RocTracerService example_channel, example_caliper, Null)"

text \<open>The state after the API callback has entered, and after it has left again.\<close>

definition after_enter :: "roctracer_service \<times> caliper \<times> node_ptr" where
  "after_enter = hip_api_callback example_lib 3 100 enter_data example_state"

definition after_exit :: "roctracer_service \<times> caliper \<times> node_ptr" where
  "after_exit = hip_api_callback example_lib 3 100 exit_data after_enter"

text \<open>A process in which no roctracer service has been registered, and two registrations.\<close>

definition initial_process :: process where
  "initial_process = \<lparr>s_instance = None, instances = [], connected = []\<rparr>"

definition registered_once :: "process \<times> caliper" where
  "registered_once = register_roctracer example_channel (initial_process, example_caliper)"

definition registered_twice :: "process \<times> caliper" where
  "registered_twice = register_roctracer other_channel registered_once"

text \<open>
  What the Umpire service reports: the two totals over the allocators of the resource
  manager (sums of \<^verbatim>\<open>uint64_t\<close> values), the context that the per-allocator records
  take over, the five fields of an allocator, and the per-allocator records in the order
  of the allocator names.
\<close>

definition total_current_size :: "resource_manager \<Rightarrow> 64 word" where
  "total_current_size rm =
     sum_list (map (\<lambda>s. getCurrentSize (getAllocator rm s)) (getAllocatorNames rm))"

definition total_allocation_count :: "resource_manager \<Rightarrow> 64 word" where
  "total_allocation_count rm =
     sum_list (map (\<lambda>s. getAllocationCount (getAllocator rm s)) (getAllocatorNames rm))"

definition snapshot_context :: "umpire_service \<Rightarrow> snapshot_record \<Rightarrow> node_ptr \<Rightarrow> snapshot_record" where
  "snapshot_context u info ctx =
     (if m_per_allocator_stats u
      then pull_context ctx (sb_append_view info (FixedSizeSnapshotRecord 60))
      else FixedSizeSnapshotRecord 60)"

definition allocator_fields ::
  "umpire_service \<Rightarrow> string \<Rightarrow> allocator \<Rightarrow> (attribute \<times> variant) list" where
  "allocator_fields u name alloc =
     [(m_alloc_name_attr u, V_string name),
      (m_alloc_actual_size_attr u, V_uint (getActualSize alloc)),
      (m_alloc_current_size_attr u, V_uint (getCurrentSize alloc)),
      (m_alloc_hwm_attr u, V_uint (getHighWatermark alloc)),
      (m_alloc_count_attr u, V_uint (getAllocationCount alloc))]"

definition allocator_records ::
  "resource_manager \<Rightarrow> umpire_service \<Rightarrow> string \<Rightarrow> snapshot_record \<Rightarrow>
   (string \<times> snapshot_record) list" where
  "allocator_records rm u channel context =
     map (\<lambda>s. (channel, allocator_record u s (getAllocator rm s) context)) (getAllocatorNames rm)"

text \<open>A resource manager with two allocators, and a snapshot builder with room for ten fields.\<close>

definition example_rm :: resource_manager where
  "example_rm =
     \<lparr>getAllocatorNames = [''HOST'', ''DEVICE''],
      getAllocator = (\<lambda>s. if s = ''HOST''
         then \<lparr>getActualSize = 4096, getCurrentSize = 1024, getHighWatermark = 2048,
               getAllocationCount = 3\<rparr>
         else \<lparr>getActualSize = 8192, getCurrentSize = 512, getHighWatermark = 4096,
               getAllocationCount = 2\<rparr>)\<rparr>"

definition example_builder :: snapshot_record where
  "example_builder = FixedSizeSnapshotRecord 10"

section \<open>Lemmas on the flush of a buffer\<close>

lemma flush_record_other:
  "\<not> is_ops_record lib r \<Longrightarrow> flush_record lib r (s, c) = (0, s, c)"
  by (simp add: flush_record_def is_ops_record_def)

lemma make_record_copy:
  "r_op r = HIP_OP_ID_COPY lib \<Longrightarrow>
   make_record 7 (activity_attr s)
     ((activity_data lib r)[6 := cali_make_variant_from_uint (r_bytes r)])
     (FixedSizeSnapshotRecord 8) parent
   = activity_snapshot lib s r parent"
  by (cases parent)
     (simp_all add: make_record_def activity_snapshot_def record_fields_def activity_attr_def
        activity_data_def FixedSizeSnapshotRecord_def sb_append_def eval_nat_numeral)

lemma make_record_other:
  "r_op r \<noteq> HIP_OP_ID_COPY lib \<Longrightarrow>
   make_record 6 (activity_attr s) (activity_data lib r) (FixedSizeSnapshotRecord 8) parent
   = activity_snapshot lib s r parent"
  by (cases parent)
     (simp_all add: make_record_def activity_snapshot_def record_fields_def activity_attr_def
        activity_data_def FixedSizeSnapshotRecord_def sb_append_def eval_nat_numeral)

lemma pop_correlation_frame:
  "activity_attr (snd (pop_correlation i s)) = activity_attr s"
  "m_channel (snd (pop_correlation i s)) = m_channel s"
  by (auto simp: pop_correlation_def activity_attr_def split: option.splits)

lemma flush_record_ops:
  assumes "is_ops_record lib r"
  shows "flush_record lib r (s, c) =
           (1, count_take (pop_correlation (r_correlation_id r) s),
            c\<lparr>processed := processed c @
                 [(m_channel s, activity_snapshot lib s r (fst (pop_correlation (r_correlation_id r) s)))]\<rparr>)"
proof -
  obtain parent s1 where pop: "pop_correlation (r_correlation_id r) s = (parent, s1)"
    by (cases "pop_correlation (r_correlation_id r) s")
  have chan: "m_channel s1 = m_channel s"
    using pop_correlation_frame(2) [of "r_correlation_id r" s] by (simp add: pop)
  show ?thesis
    using assms
    by (cases "r_op r = HIP_OP_ID_COPY lib")
       (simp_all add: flush_record_def is_ops_record_def pop count_take_def process_snapshot_def
          chan make_record_copy make_record_other)
qed

lemma flush_loop_visited:
  "visited lib e r as \<Longrightarrow> flush_loop lib mem e r st = Some (flush_records lib mem as st)"
proof (induction as arbitrary: r st)
  case Nil
  then show ?case by (subst flush_loop.simps) simp
next
  case (Cons a as)
  obtain nf nr s c where st: "st = (nf, nr, s, c)" by (cases st)
  obtain n s1 c1 where fr: "flush_record lib (mem r) (s, c) = (n, s1, c1)"
    by (cases "flush_record lib (mem r) (s, c)")
  obtain status nxt where nx: "roctracer_next_record lib r = (status, nxt)"
    by (cases "roctracer_next_record lib r")
  from Cons.prems have r: "r < e" "a = r" by simp_all
  show ?case
  proof (cases "status = 0")
    case True
    with Cons.prems nx have "visited lib e nxt as" by simp
    then have "flush_loop lib mem e nxt (nf + n, nr + 1, s1, c1)
        = Some (flush_records lib mem as (nf + n, nr + 1, s1, c1))"
      by (rule Cons.IH)
    then show ?thesis
      using r True by (subst flush_loop.simps) (simp add: st fr nx)
  next
    case False
    with Cons.prems nx have "as = []" by simp
    then show ?thesis
      using r False by (subst flush_loop.simps) (simp add: st fr nx)
  qed
qed

lemma flush_records_closed:
  "flush_records lib mem as (nf, nr, s, c) =
     (nf + of_nat (length (filter (is_ops_record lib) (map mem as))),
      nr + of_nat (length as),
      takes lib (map mem as) s,
      c\<lparr>processed := processed c @ snapshots_of lib (map mem as) s\<rparr>)"
proof (induction as arbitrary: nf nr s c)
  case Nil
  show ?case by simp
next
  case (Cons a as)
  show ?case
  proof (cases "is_ops_record lib (mem a)")
    case True
    then show ?thesis
      by (simp add: flush_record_ops Cons.IH add.assoc add.commute)
  next
    case False
    then show ?thesis
      by (simp add: flush_record_other Cons.IH add.assoc add.commute)
  qed
qed

lemma count_take_frame:
  "m_channel (count_take (pop_correlation i s)) = m_channel s"
  "activity_attr (count_take (pop_correlation i s)) = activity_attr s"
  "m_flush_region_attr (count_take (pop_correlation i s)) = m_flush_region_attr s"
  "m_num_records (count_take (pop_correlation i s)) = m_num_records s"
  "m_num_flushed (count_take (pop_correlation i s)) = m_num_flushed s"
  "m_num_flushes (count_take (pop_correlation i s)) = m_num_flushes s"
  "m_num_correlations_stored (count_take (pop_correlation i s)) = m_num_correlations_stored s"
  by (auto simp: count_take_def pop_correlation_def activity_attr_def split: option.splits)

lemma takes_frame:
  "m_channel (takes lib rs s) = m_channel s"
  "activity_attr (takes lib rs s) = activity_attr s"
  "m_flush_region_attr (takes lib rs s) = m_flush_region_attr s"
  "m_num_records (takes lib rs s) = m_num_records s"
  "m_num_flushed (takes lib rs s) = m_num_flushed s"
  "m_num_flushes (takes lib rs s) = m_num_flushes s"
  "m_num_correlations_stored (takes lib rs s) = m_num_correlations_stored s"
  by (induction rs arbitrary: s) (simp_all add: count_take_frame)

lemma record_fields_count_take:
  "record_fields lib (count_take (pop_correlation i s)) = record_fields lib s"
  by (rule ext) (simp add: record_fields_def count_take_frame)

lemma snapshots_of_fields:
  "map dispatched_fields (snapshots_of lib rs s)
     = map (record_fields lib s) (filter (is_ops_record lib) rs)"
proof (induction rs arbitrary: s)
  case Nil
  show ?case by simp
next
  case (Cons r rs)
  show ?case
  proof (cases "is_ops_record lib r")
    case True
    have "dispatched_fields
            (m_channel s, activity_snapshot lib s r (fst (pop_correlation (r_correlation_id r) s)))
            = record_fields lib s r"
      by (simp add: activity_snapshot_def dispatched_fields_def)
    then show ?thesis
      using True by (simp add: Cons.IH record_fields_count_take)
  next
    case False
    then show ?thesis by (simp add: Cons.IH)
  qed
qed

lemma snapshots_of_channel:
  "map fst (snapshots_of lib rs s) = replicate (length (filter (is_ops_record lib) rs)) (m_channel s)"
  by (induction rs arbitrary: s) (simp_all add: count_take_frame)

lemma snapshots_of_length:
  "length (snapshots_of lib rs s) = length (filter (is_ops_record lib) rs)"
  by (induction rs arbitrary: s) simp_all


lemma flush_activity_records_visited:
  assumes "visited lib e b as"
  shows "flush_activity_records lib mem b e (s, c, ctx)
           = Some (flush_outcome lib (map mem as) (s, c, ctx))"
proof -
  let ?node = "\<lparr>node_attr = m_flush_region_attr s, node_value = V_string ''ROCTRACER FLUSH'',
                  node_parent = ctx\<rparr>"
  let ?c1 = "c\<lparr>nodes := nodes c @ [?node]\<rparr>"
  let ?rs = "map mem as"
  let ?k = "of_nat (length (filter (is_ops_record lib) ?rs)) :: 32 word"
  let ?n = "of_nat (length as) :: 32 word"
  let ?s1 = "takes lib ?rs s"
  let ?c2 = "?c1\<lparr>processed := processed ?c1 @ snapshots_of lib ?rs s\<rparr>"
  have enter: "cali_begin (m_flush_region_attr s) (V_string ''ROCTRACER FLUSH'') (c, ctx)
                 = (?c1, NodeRef (length (nodes c)))"
    by (simp add: cali_begin_def)
  have loop: "flush_loop lib mem e b (0, 0, s, ?c1) = Some (?k, ?n, ?s1, ?c2)"
    using flush_loop_visited [OF assms, of mem "(0, 0, s, ?c1)"]
    by (simp add: flush_records_closed)
  have fin: "cali_end (m_flush_region_attr s) (c3, NodeRef (length (nodes c))) = (c3, ctx)"
    if "nodes c3 = nodes c @ [?node]" for c3
    using that by (simp add: cali_end_def)
  show ?thesis
    unfolding flush_activity_records_def flush_outcome_def
    by (simp add: enter loop takes_frame fin cali_log_def Let_def)
qed

text \<open>
  The list of the records met is determined by the buffer and the accessor, and it exists
  whenever the accessor moves forward on every record of the buffer: the flush of such a
  buffer returns.
\<close>

lemma visited_unique:
  "visited lib e b as \<Longrightarrow> visited lib e b as' \<Longrightarrow> as = as'"
proof (induction as arbitrary: b as')
  case Nil
  then show ?case by (cases as') simp_all
next
  case (Cons a as)
  then obtain a' as'' where as': "as' = a' # as''"
    by (cases as') auto
  show ?case
  proof (cases "fst (roctracer_next_record lib b) \<noteq> 0")
    case True
    with Cons.prems as' show ?thesis by simp
  next
    case False
    with Cons.prems as' have "visited lib e (snd (roctracer_next_record lib b)) as"
      and "visited lib e (snd (roctracer_next_record lib b)) as''" and "a = a'"
      by simp_all
    with Cons.IH as' show ?thesis by blast
  qed
qed

lemma visited_exists:
  assumes "\<And>r. r < e \<Longrightarrow> r < snd (roctracer_next_record lib r)"
  shows "\<exists>as. visited lib e b as"
proof (induction "e - b" arbitrary: b rule: less_induct)
  case less
  show ?case
  proof (cases "b < e")
    case False
    then have "visited lib e b []" by simp
    then show ?thesis ..
  next
    case True
    show ?thesis
    proof (cases "fst (roctracer_next_record lib b) \<noteq> 0")
      case True
      with \<open>b < e\<close> have "visited lib e b [b]" by simp
      then show ?thesis ..
    next
      case False
      let ?nxt = "snd (roctracer_next_record lib b)"
      have "b < ?nxt" using assms \<open>b < e\<close> by simp
      then have "e - ?nxt < e - b" using \<open>b < e\<close> by simp
      then obtain as where "visited lib e ?nxt as"
        using less.hyps by blast
      with False \<open>b < e\<close> have "visited lib e b (b # as)" by simp
      then show ?thesis ..
    qed
  qed
qed

lemma flush_activity_records_returns:
  assumes "\<And>r. r < e \<Longrightarrow> r < snd (roctracer_next_record lib r)"
  shows "\<exists>res. flush_activity_records lib mem b e (s, c, ctx) = Some res"
proof -
  obtain as where "visited lib e b as"
    using visited_exists [OF assms] by blast
  then have "flush_activity_records lib mem b e (s, c, ctx)
               = Some (flush_outcome lib (map mem as) (s, c, ctx))"
    by (rule flush_activity_records_visited)
  then show ?thesis ..
qed

section \<open>Properties of the correlation store\<close>

lemma run_corr_op_other:
  "corr_op_id x \<noteq> cor_id \<Longrightarrow> m_correlation_map (run_corr_op x s) cor_id = m_correlation_map s cor_id"
  by (cases x) (auto simp: push_correlation_def pop_correlation_def split: option.splits)

lemma run_corr_ops_other:
  "\<forall>x \<in> set xs. corr_op_id x \<noteq> cor_id \<Longrightarrow>
   m_correlation_map (run_corr_ops xs s) cor_id = m_correlation_map s cor_id"
  by (induction xs arbitrary: s) (simp_all add: run_corr_op_other)

lemma pop_correlation_present:
  "m_correlation_map s cor_id = Some n \<Longrightarrow>
   pop_correlation cor_id s = (n, s\<lparr>m_correlation_map := (m_correlation_map s)(cor_id := None)\<rparr>)"
  by (simp add: pop_correlation_def)

lemma pop_correlation_absent:
  "m_correlation_map s cor_id = None \<Longrightarrow> pop_correlation cor_id s = (Null, s)"
  by (simp add: pop_correlation_def)

text \<open>
  C1. A take of an id after a store of node \<open>n\<close> under that id, with only operations
  on other ids in between, returns exactly \<open>n\<close> and removes the entry; a second take of
  the id right after it returns the null pointer.
\<close>

theorem take_after_store:
  assumes "\<forall>x \<in> set between. corr_op_id x \<noteq> cor_id"
  shows "fst (pop_correlation cor_id (run_corr_ops between (push_correlation cor_id n s))) = n
       \<and> m_correlation_map
           (snd (pop_correlation cor_id (run_corr_ops between (push_correlation cor_id n s)))) cor_id = None
       \<and> fst (pop_correlation cor_id
           (snd (pop_correlation cor_id (run_corr_ops between (push_correlation cor_id n s))))) = Null"
proof -
  let ?s1 = "run_corr_ops between (push_correlation cor_id n s)"
  have "m_correlation_map ?s1 cor_id = m_correlation_map (push_correlation cor_id n s) cor_id"
    using assms by (rule run_corr_ops_other)
  then have present: "m_correlation_map ?s1 cor_id = Some n"
    by (simp add: push_correlation_def)
  have first: "pop_correlation cor_id ?s1
      = (n, ?s1\<lparr>m_correlation_map := (m_correlation_map ?s1)(cor_id := None)\<rparr>)"
    using present by (rule pop_correlation_present)
  have gone: "m_correlation_map (snd (pop_correlation cor_id ?s1)) cor_id = None"
    by (simp add: first)
  have "pop_correlation cor_id (snd (pop_correlation cor_id ?s1)) = (Null, snd (pop_correlation cor_id ?s1))"
    using gone by (rule pop_correlation_absent)
  then show ?thesis using first gone by simp
qed

theorem take_after_store_witness:
  "corr_op_id (Store 7 (NodeRef 3)) \<noteq> 42 \<and> corr_op_id (Take 8) \<noteq> 42
   \<and> fst (pop_correlation 42 (run_corr_ops [Store 7 (NodeRef 3), Take 8]
            (push_correlation 42 (NodeRef 5) (RocTracerService example_channel)))) = NodeRef 5
   \<and> m_correlation_map (snd (pop_correlation 42 (run_corr_ops [Store 7 (NodeRef 3), Take 8]
            (push_correlation 42 (NodeRef 5) (RocTracerService example_channel))))) 42 = None
   \<and> fst (pop_correlation 42 (snd (pop_correlation 42 (run_corr_ops [Store 7 (NodeRef 3), Take 8]
            (push_correlation 42 (NodeRef 5) (RocTracerService example_channel)))))) = Null"
  using take_after_store
    [of "[Store 7 (NodeRef 3), Take 8]" 42 "NodeRef 5" "RocTracerService example_channel"]
  by simp

text \<open>
  C2. Two stores under one id, the second right after the first, leave the map as a single
  store of the second node would: the id has the one entry \<open>n2\<close>, the set of keys is the
  one the first store left, and a take of the id returns \<open>n2\<close> and removes the entry.
\<close>

theorem store_overwrites:
  "m_correlation_map (push_correlation cor_id n2 (push_correlation cor_id n1 s))
     = m_correlation_map (push_correlation cor_id n2 s)
   \<and> {n. m_correlation_map (push_correlation cor_id n2 (push_correlation cor_id n1 s)) cor_id
           = Some n} = {n2}
   \<and> dom (m_correlation_map (push_correlation cor_id n2 (push_correlation cor_id n1 s)))
       = dom (m_correlation_map (push_correlation cor_id n1 s))
   \<and> fst (pop_correlation cor_id (push_correlation cor_id n2 (push_correlation cor_id n1 s))) = n2
   \<and> m_correlation_map (snd (pop_correlation cor_id
        (push_correlation cor_id n2 (push_correlation cor_id n1 s)))) cor_id = None"
  by (auto simp: push_correlation_def pop_correlation_def)

lemma taken_absent: "m_correlation_map (snd (pop_correlation cor_id s)) cor_id = None"
  by (simp add: pop_correlation_def split: option.splits)

lemma never_stored_absent:
  "\<forall>x \<in> set history. \<forall>n. x \<noteq> Store cor_id n \<Longrightarrow>
   m_correlation_map (run_corr_ops history (RocTracerService ch)) cor_id = None"
proof -
  have "\<forall>x \<in> set history. \<forall>n. x \<noteq> Store cor_id n \<Longrightarrow> m_correlation_map s cor_id = None \<Longrightarrow>
        m_correlation_map (run_corr_ops history s) cor_id = None" for s
  proof (induction history arbitrary: s)
    case Nil
    then show ?case by simp
  next
    case (Cons x xs)
    have "m_correlation_map (run_corr_op x s) cor_id = None"
      using Cons.prems
      by (cases x) (auto simp: push_correlation_def pop_correlation_def split: option.splits)
    then show ?case using Cons by simp
  qed
  then show "\<forall>x \<in> set history. \<forall>n. x \<noteq> Store cor_id n \<Longrightarrow> ?thesis"
    by (simp add: RocTracerService_def)
qed

text \<open>
  C5. A take of an id that has no entry in the store returns the null pointer and leaves
  the store as it is, and the flush that makes the take counts it as exactly one miss:
  the instance afterwards is the instance before with the missed counter one higher (the
  counter is \<^verbatim>\<open>unsigned\<close>, so the increment is the one of 32-bit arithmetic). An id
  has no entry when it was never stored (\<open>never_stored_absent\<close>) and when it has
  already been taken (\<open>taken_absent\<close>).
\<close>

theorem take_miss:
  assumes "m_correlation_map s cor_id = None"
  shows "pop_correlation cor_id s = (Null, s)
       \<and> (is_ops_record lib r \<and> r_correlation_id r = cor_id \<longrightarrow>
            fst (snd (flush_record lib r (s, c)))
              = s\<lparr>m_num_correlations_missed := m_num_correlations_missed s + 1\<rparr>)"
  using assms by (simp add: pop_correlation_absent flush_record_ops count_take_def)

theorem take_miss_witness:
  "m_correlation_map (RocTracerService example_channel) 99 = None
   \<and> fst (pop_correlation 99 (RocTracerService example_channel)) = Null
   \<and> is_ops_record example_lib unmatched_record
   \<and> r_correlation_id unmatched_record = 99
   \<and> m_num_correlations_missed
        (fst (snd (flush_record example_lib unmatched_record
                     (RocTracerService example_channel, example_caliper)))) = 1"
proof -
  have absent: "m_correlation_map (RocTracerService example_channel) 99 = None"
    by (simp add: RocTracerService_def)
  have ops: "is_ops_record example_lib unmatched_record"
    by (simp add: is_ops_record_def example_lib_def unmatched_record_def)
  have cid: "r_correlation_id unmatched_record = 99"
    by (simp add: unmatched_record_def)
  have zero: "m_num_correlations_missed (RocTracerService example_channel) = 0"
    by (simp add: RocTracerService_def)
  show ?thesis
    using take_miss [OF absent, of example_lib unmatched_record example_caliper] absent ops cid zero
    by simp
qed

section \<open>Properties of the flush\<close>

lemma skipped_count:
  "(of_nat (length xs) :: 32 word) - of_nat (length (filter P xs))
     = of_nat (length (filter (\<lambda>x. \<not> P x) xs))"
proof -
  have "length xs = length (filter P xs) + length (filter (\<lambda>x. \<not> P x) xs)"
    by (simp add: sum_length_filter_compl)
  then have "(of_nat (length xs) :: 32 word)
               = of_nat (length (filter P xs)) + of_nat (length (filter (\<lambda>x. \<not> P x) xs))"
    by (metis of_nat_add)
  then show ?thesis by simp
qed

text \<open>
  C4. A recognized record whose correlation id has no entry in the store is still turned
  into exactly one snapshot, which is dispatched to the instance's channel; the snapshot
  has the record's fields and no inherited context branch; the missed counter goes up by
  one (to 1 from 0) and the found counter stays. A buffer that holds this one record is
  flushed successfully with that one snapshot.
\<close>

theorem miss_still_dispatches:
  assumes "is_ops_record lib r" and "m_correlation_map s (r_correlation_id r) = None"
  shows "flush_record lib r (s, c)
           = (1, s\<lparr>m_num_correlations_missed := m_num_correlations_missed s + 1\<rparr>,
              c\<lparr>processed := processed c @ [(m_channel s, activity_snapshot lib s r Null)]\<rparr>)
       \<and> sb_context (activity_snapshot lib s r Null) = []
       \<and> sb_fields (activity_snapshot lib s r Null) = record_fields lib s r
       \<and> (m_num_correlations_missed s = 0 \<longrightarrow>
            m_num_correlations_missed (fst (snd (flush_record lib r (s, c)))) = 1)
       \<and> (visited lib e b [b] \<and> mem b = r \<longrightarrow>
            (\<exists>s' c'. flush_activity_records lib mem b e (s, c, ctx) = Some (s', c', ctx)
                \<and> processed c' = processed c @ [(m_channel s, activity_snapshot lib s r Null)]
                \<and> m_num_correlations_missed s' = m_num_correlations_missed s + 1
                \<and> m_num_correlations_found s' = m_num_correlations_found s))"
proof -
  have pop: "pop_correlation (r_correlation_id r) s = (Null, s)"
    using assms(2) by (rule pop_correlation_absent)
  have one: "flush_record lib r (s, c)
           = (1, s\<lparr>m_num_correlations_missed := m_num_correlations_missed s + 1\<rparr>,
              c\<lparr>processed := processed c @ [(m_channel s, activity_snapshot lib s r Null)]\<rparr>)"
    using assms(1) by (simp add: flush_record_ops pop count_take_def)
  have buf: "\<exists>s' c'. flush_activity_records lib mem b e (s, c, ctx) = Some (s', c', ctx)
                \<and> processed c' = processed c @ [(m_channel s, activity_snapshot lib s r Null)]
                \<and> m_num_correlations_missed s' = m_num_correlations_missed s + 1
                \<and> m_num_correlations_found s' = m_num_correlations_found s"
    if v: "visited lib e b [b]" and m: "mem b = r"
  proof -
    have "flush_activity_records lib mem b e (s, c, ctx)
            = Some (flush_outcome lib (map mem [b]) (s, c, ctx))"
      using v by (rule flush_activity_records_visited)
    then show ?thesis
      using assms(1) by (simp add: flush_outcome_def m pop count_take_def cali_log_def Let_def)
  qed
  show ?thesis
    using one buf by (simp add: activity_snapshot_def)
qed

theorem miss_still_dispatches_witness:
  "is_ops_record example_lib unmatched_record
   \<and> m_correlation_map (RocTracerService example_channel) (r_correlation_id unmatched_record) = None
   \<and> m_num_correlations_missed (RocTracerService example_channel) = 0
   \<and> visited example_lib 2 1 [1]
   \<and> kernel_memory 1 = unmatched_record
   \<and> sb_context (activity_snapshot example_lib (RocTracerService example_channel)
                    unmatched_record Null) = []
   \<and> m_num_correlations_missed
        (fst (snd (flush_record example_lib unmatched_record
                     (RocTracerService example_channel, example_caliper)))) = 1
   \<and> (\<exists>s' c'. flush_activity_records example_lib kernel_memory 1 2
                  (RocTracerService example_channel, example_caliper, Null) = Some (s', c', Null)
         \<and> processed c' = processed example_caliper @
              [(m_channel (RocTracerService example_channel),
                activity_snapshot example_lib (RocTracerService example_channel)
                  unmatched_record Null)]
         \<and> m_num_correlations_missed s'
              = m_num_correlations_missed (RocTracerService example_channel) + 1
         \<and> m_num_correlations_found s'
              = m_num_correlations_found (RocTracerService example_channel))"
proof -
  have ops: "is_ops_record example_lib unmatched_record"
    by (simp add: is_ops_record_def example_lib_def unmatched_record_def)
  have absent: "m_correlation_map (RocTracerService example_channel)
                  (r_correlation_id unmatched_record) = None"
    by (simp add: RocTracerService_def)
  have zero: "m_num_correlations_missed (RocTracerService example_channel) = 0"
    by (simp add: RocTracerService_def)
  have v: "visited example_lib 2 1 [1]"
    by (simp add: example_lib_def)
  have m: "kernel_memory 1 = unmatched_record"
    by (simp add: kernel_memory_def)
  show ?thesis
    using miss_still_dispatches [OF ops absent, where c = example_caliper and e = 2 and b = 1
        and mem = kernel_memory and ctx = Null] ops absent zero v m
    by blast
qed

text \<open>
  C6. The flush meets the records of a buffer in the linking order of the vendor's accessor:
  it starts at the begin pointer and follows \<^verbatim>\<open>roctracer_next_record\<close> up to the end
  pointer or up to the first failing call. Each record it meets that is of the HIP or HCC
  operation domain gives exactly one snapshot, dispatched to the instance's channel, and
  the snapshots come in the order of the records; a record of another domain gives none.
\<close>

theorem flush_in_linking_order:
  assumes "visited lib e b as"
  shows "\<exists>s' c' news. flush_activity_records lib mem b e (s, c, ctx) = Some (s', c', ctx)
           \<and> processed c' = processed c @ news
           \<and> map dispatched_fields news
                = map (record_fields lib s) (filter (is_ops_record lib) (map mem as))
           \<and> map fst news = replicate (length news) (m_channel s)"
proof -
  have "flush_activity_records lib mem b e (s, c, ctx)
          = Some (flush_outcome lib (map mem as) (s, c, ctx))"
    using assms by (rule flush_activity_records_visited)
  moreover have "processed (fst (snd (flush_outcome lib (map mem as) (s, c, ctx))))
                   = processed c @ snapshots_of lib (map mem as) s"
    by (simp add: flush_outcome_def cali_log_def Let_def)
  moreover have "snd (snd (flush_outcome lib (map mem as) (s, c, ctx))) = ctx"
    by (simp add: flush_outcome_def Let_def)
  moreover have "map fst (snapshots_of lib (map mem as) s)
                   = replicate (length (snapshots_of lib (map mem as) s)) (m_channel s)"
    by (simp add: snapshots_of_channel snapshots_of_length)
  ultimately show ?thesis
    using snapshots_of_fields [of lib "map mem as" s]
    by (metis prod.collapse)
qed

theorem flush_in_linking_order_witness:
  "visited example_lib 3 0 [0, 1, 2]
   \<and> filter (is_ops_record example_lib) (map mixed_memory [0, 1, 2])
       = [kernel_record, unmatched_record]
   \<and> (\<exists>s' c' news. flush_activity_records example_lib mixed_memory 0 3
                      (RocTracerService example_channel, example_caliper, Null)
                      = Some (s', c', Null)
         \<and> processed c' = processed example_caliper @ news
         \<and> map dispatched_fields news
              = map (record_fields example_lib (RocTracerService example_channel))
                  (filter (is_ops_record example_lib) (map mixed_memory [0, 1, 2]))
         \<and> map fst news = replicate (length news) (m_channel (RocTracerService example_channel)))"
proof -
  have v: "visited example_lib 3 0 [0, 1, 2]"
    by (simp add: example_lib_def)
  have f: "filter (is_ops_record example_lib) (map mixed_memory [0, 1, 2])
             = [kernel_record, unmatched_record]"
    by (simp add: is_ops_record_def example_lib_def mixed_memory_def kernel_record_def
          unmatched_record_def foreign_record_def)
  show ?thesis
    using flush_in_linking_order [OF v, of mixed_memory "RocTracerService example_channel"
        example_caliper Null] v f
    by blast
qed

text \<open>
  The statement that every record of a buffer gives a snapshot does not hold: a buffer
  with one record of a domain other than the two operation domains is flushed without
  any snapshot; the record is counted as seen and not as flushed.
\<close>

theorem unrecognized_record_counterexample:
  "visited example_lib 1 0 [0]
   \<and> result_processed (flush_activity_records example_lib foreign_memory 0 1 example_state) = Some []
   \<and> result_counters (flush_activity_records example_lib foreign_memory 0 1 example_state)
       = Some (1, 0, 1, 0, 0, 0)"
proof -
  have v: "visited example_lib 1 0 [0]"
    by (simp add: example_lib_def)
  have ops: "\<not> is_ops_record example_lib foreign_record"
    by (simp add: is_ops_record_def example_lib_def foreign_record_def)
  have res: "flush_activity_records example_lib foreign_memory 0 1 example_state
          = Some (flush_outcome example_lib (map foreign_memory [0]) example_state)"
    unfolding example_state_def using v by (rule flush_activity_records_visited)
  have pr: "result_processed (flush_activity_records example_lib foreign_memory 0 1 example_state)
       = Some []"
    unfolding res
    by (simp add: ops result_processed_def flush_outcome_def
          example_state_def foreign_memory_def example_caliper_def cali_log_def Let_def)
  have cnt: "result_counters (flush_activity_records example_lib foreign_memory 0 1 example_state)
       = Some (1, 0, 1, 0, 0, 0)"
    unfolding res
    by (simp add: ops result_counters_def counters_def flush_outcome_def
          example_state_def foreign_memory_def Let_def RocTracerService_def)
  show ?thesis
    by (intro conjI v pr cnt)
qed

text \<open>
  C7. A record of an unrecognized domain is counted as seen and not as flushed, gives no
  snapshot, and the loop goes on at the record the accessor returns. When the accessor
  fails at a record, the loop ends there: that record has been flushed and counted, the
  snapshots dispatched so far stay, and the records behind it are neither met nor
  counted. The numbers of a flush cover the records met: the records counter grows by
  their number, the flushed counter by the number of recognized ones among them, and the
  number logged as skipped at verbosity 2 is the number of unrecognized ones among them.
\<close>

theorem skip_and_early_stop:
  "(r < e \<and> \<not> is_ops_record lib (mem r) \<and> roctracer_next_record lib r = (0, nxt) \<longrightarrow>
      flush_loop lib mem e r (nf, nr, s, c) = flush_loop lib mem e nxt (nf, nr + 1, s, c))
   \<and> (r < e \<and> fst (roctracer_next_record lib r) \<noteq> 0 \<longrightarrow>
      flush_loop lib mem e r (nf, nr, s, c)
        = Some (nf + fst (flush_record lib (mem r) (s, c)), nr + 1,
                snd (flush_record lib (mem r) (s, c))))
   \<and> (visited lib e b as \<longrightarrow>
      (\<exists>s' c' news. flush_activity_records lib mem b e (s, c, ctx) = Some (s', c', ctx)
          \<and> processed c' = processed c @ news
          \<and> length news = length (filter (is_ops_record lib) (map mem as))
          \<and> m_num_records s' = m_num_records s + of_nat (length as)
          \<and> m_num_flushed s'
               = m_num_flushed s + of_nat (length (filter (is_ops_record lib) (map mem as)))
          \<and> m_num_flushes s' = m_num_flushes s + 1
          \<and> (2 \<le> verbosity c \<longrightarrow>
               log_stream c' = log_stream c @
                 [(2, LOG_flushed (m_channel s) (of_nat (length as))
                        (of_nat (length (filter (is_ops_record lib) (map mem as))))
                        (of_nat (length (filter (\<lambda>x. \<not> is_ops_record lib x) (map mem as)))))])))"
proof (intro conjI impI)
  assume a: "r < e \<and> \<not> is_ops_record lib (mem r) \<and> roctracer_next_record lib r = (0, nxt)"
  then show "flush_loop lib mem e r (nf, nr, s, c) = flush_loop lib mem e nxt (nf, nr + 1, s, c)"
    by (subst flush_loop.simps) (simp add: flush_record_other)
next
  assume a: "r < e \<and> fst (roctracer_next_record lib r) \<noteq> 0"
  obtain n s1 c1 where fr: "flush_record lib (mem r) (s, c) = (n, s1, c1)"
    by (cases "flush_record lib (mem r) (s, c)")
  obtain status nxt' where nx: "roctracer_next_record lib r = (status, nxt')"
    by (cases "roctracer_next_record lib r")
  show "flush_loop lib mem e r (nf, nr, s, c)
        = Some (nf + fst (flush_record lib (mem r) (s, c)), nr + 1,
                snd (flush_record lib (mem r) (s, c)))"
    using a by (subst flush_loop.simps) (simp add: fr nx)
next
  assume v: "visited lib e b as"
  let ?out = "flush_outcome lib (map mem as) (s, c, ctx)"
  have res: "flush_activity_records lib mem b e (s, c, ctx) = Some ?out"
    using v by (rule flush_activity_records_visited)
  have ctx: "snd (snd ?out) = ctx"
    by (simp add: flush_outcome_def Let_def)
  have proc: "processed (fst (snd ?out)) = processed c @ snapshots_of lib (map mem as) s"
    by (simp add: flush_outcome_def cali_log_def Let_def)
  have cnt: "m_num_records (fst ?out) = m_num_records s + of_nat (length as)"
    "m_num_flushed (fst ?out)
       = m_num_flushed s + of_nat (length (filter (is_ops_record lib) (map mem as)))"
    "m_num_flushes (fst ?out) = m_num_flushes s + 1"
    by (simp_all add: flush_outcome_def Let_def)
  have lg: "log_stream (fst (snd ?out)) = log_stream c @
                 [(2, LOG_flushed (m_channel s) (of_nat (length as))
                        (of_nat (length (filter (is_ops_record lib) (map mem as))))
                        (of_nat (length (filter (\<lambda>x. \<not> is_ops_record lib x) (map mem as)))))]"
    if "2 \<le> verbosity c"
    using that skipped_count [of "map mem as" "is_ops_record lib"]
    by (simp add: flush_outcome_def cali_log_def Let_def)
  show "\<exists>s' c' news. flush_activity_records lib mem b e (s, c, ctx) = Some (s', c', ctx)
          \<and> processed c' = processed c @ news
          \<and> length news = length (filter (is_ops_record lib) (map mem as))
          \<and> m_num_records s' = m_num_records s + of_nat (length as)
          \<and> m_num_flushed s'
               = m_num_flushed s + of_nat (length (filter (is_ops_record lib) (map mem as)))
          \<and> m_num_flushes s' = m_num_flushes s + 1
          \<and> (2 \<le> verbosity c \<longrightarrow>
               log_stream c' = log_stream c @
                 [(2, LOG_flushed (m_channel s) (of_nat (length as))
                        (of_nat (length (filter (is_ops_record lib) (map mem as))))
                        (of_nat (length (filter (\<lambda>x. \<not> is_ops_record lib x) (map mem as)))))])"
  proof (intro exI conjI impI)
    show "flush_activity_records lib mem b e (s, c, ctx)
            = Some (fst ?out, fst (snd ?out), ctx)"
      using res ctx by (metis prod.collapse)
    show "processed (fst (snd ?out)) = processed c @ snapshots_of lib (map mem as) s"
      by (rule proc)
    show "length (snapshots_of lib (map mem as) s)
            = length (filter (is_ops_record lib) (map mem as))"
      by (rule snapshots_of_length)
  qed (simp_all add: cnt lg)
qed

theorem skip_and_early_stop_witness:
  "(0::nat) < 1 \<and> \<not> is_ops_record example_lib (foreign_memory 0)
   \<and> roctracer_next_record example_lib 0 = (0, 1)
   \<and> flush_loop example_lib foreign_memory 1 0
        (0, 0, RocTracerService example_channel, example_caliper)
       = flush_loop example_lib foreign_memory 1 1
           (0, 0 + 1, RocTracerService example_channel, example_caliper)
   \<and> (0::nat) < 2 \<and> fst (roctracer_next_record failing_lib 0) \<noteq> 0
   \<and> flush_loop failing_lib kernel_memory 2 0
        (0, 0, RocTracerService example_channel, example_caliper)
       = Some (0 + fst (flush_record failing_lib (kernel_memory 0)
                          (RocTracerService example_channel, example_caliper)),
               0 + 1,
               snd (flush_record failing_lib (kernel_memory 0)
                      (RocTracerService example_channel, example_caliper)))
   \<and> visited failing_lib 2 0 [0] \<and> 2 \<le> verbosity example_caliper
   \<and> (\<exists>s' c'. flush_activity_records failing_lib kernel_memory 0 2
                  (RocTracerService example_channel, example_caliper, Null) = Some (s', c', Null)
         \<and> m_num_records s' = m_num_records (RocTracerService example_channel) + of_nat (length [0::nat])
         \<and> log_stream c' = log_stream example_caliper @
              [(2, LOG_flushed (m_channel (RocTracerService example_channel))
                     (of_nat (length [0::nat]))
                     (of_nat (length (filter (is_ops_record failing_lib) (map kernel_memory [0]))))
                     (of_nat (length (filter (\<lambda>x. \<not> is_ops_record failing_lib x)
                                        (map kernel_memory [0])))))])"
proof -
  have a: "(0::nat) < 1 \<and> \<not> is_ops_record example_lib (foreign_memory 0)
           \<and> roctracer_next_record example_lib 0 = (0, 1)"
    by (simp add: is_ops_record_def example_lib_def foreign_memory_def foreign_record_def)
  have b: "(0::nat) < 2 \<and> fst (roctracer_next_record failing_lib 0) \<noteq> 0"
    by (simp add: failing_lib_def example_lib_def)
  have v: "visited failing_lib 2 0 [0]"
    by (simp add: failing_lib_def example_lib_def)
  have vb: "2 \<le> verbosity example_caliper"
    by (simp add: example_caliper_def)
  show ?thesis
    using skip_and_early_stop [where r = 0 and e = 1 and lib = example_lib
        and mem = foreign_memory and nxt = 1 and nf = 0 and nr = 0
        and s = "RocTracerService example_channel" and c = example_caliper]
      skip_and_early_stop [where r = 0 and e = 2 and lib = failing_lib
        and mem = kernel_memory and nf = 0 and nr = 0
        and s = "RocTracerService example_channel" and c = example_caliper
        and b = 0 and as = "[0]" and ctx = Null]
      a b v vb
    by blast
qed

text \<open>
  The records behind a failing accessor call are not reported as skipped: in a buffer of
  two kernel records where the accessor fails at the first, the flush logs one record,
  one flushed and zero skipped, and counts one record.
\<close>

theorem early_stop_counterexample:
  "visited example_lib 2 0 [0, 1]
   \<and> visited failing_lib 2 0 [0]
   \<and> result_log (flush_activity_records failing_lib kernel_memory 0 2 example_state)
       = Some [(2, LOG_flushed ''default'' 1 1 0)]
   \<and> result_counters (flush_activity_records failing_lib kernel_memory 0 2 example_state)
       = Some (1, 1, 1, 0, 0, 1)"
proof -
  have v: "visited failing_lib 2 0 [0]"
    by (simp add: failing_lib_def example_lib_def)
  have v2: "visited example_lib 2 0 [0, 1]"
    by (simp add: example_lib_def)
  have ops: "is_ops_record failing_lib kernel_record"
    by (simp add: is_ops_record_def failing_lib_def example_lib_def kernel_record_def)
  have res: "flush_activity_records failing_lib kernel_memory 0 2 example_state
          = Some (flush_outcome failing_lib (map kernel_memory [0]) example_state)"
    unfolding example_state_def using v by (rule flush_activity_records_visited)
  have lg: "result_log (flush_activity_records failing_lib kernel_memory 0 2 example_state)
       = Some [(2, LOG_flushed ''default'' 1 1 0)]"
    unfolding res
    by (simp add: ops result_log_def flush_outcome_def
          example_state_def kernel_memory_def example_caliper_def cali_log_def Let_def
          RocTracerService_def example_channel_def)
  have cnt: "result_counters (flush_activity_records failing_lib kernel_memory 0 2 example_state)
       = Some (1, 1, 1, 0, 0, 1)"
    unfolding res
    by (simp add: ops result_counters_def counters_def flush_outcome_def
          example_state_def kernel_memory_def Let_def
          count_take_def pop_correlation_def RocTracerService_def)
  show ?thesis
    by (intro conjI v v2 lg cnt)
qed

text \<open>
  C8. A buffer callback with the begin pointer equal to the end pointer returns, dispatches
  no snapshot, and leaves the instance as it was except for the flush counter, which is
  one higher: records seen, records flushed, the three correlation counters and the
  correlation map are unchanged.
\<close>

theorem empty_buffer_flush:
  "\<exists>c'. rt_activity_callback lib mem a a (s, c, ctx)
            = Some (s\<lparr>m_num_flushes := m_num_flushes s + 1\<rparr>, c', ctx)
        \<and> processed c' = processed c"
proof -
  have "visited lib a a []" by simp
  then have "flush_activity_records lib mem a a (s, c, ctx)
               = Some (flush_outcome lib (map mem []) (s, c, ctx))"
    by (rule flush_activity_records_visited)
  then show ?thesis
    by (simp add: rt_activity_callback_def flush_outcome_def cali_log_def Let_def)
qed

section \<open>The API callback and the correlation of a completion record\<close>

lemma hip_api_callback_enter:
  assumes "cid \<noteq> HIP_API_ID___hipPushCallConfiguration lib"
    and "cid \<noteq> HIP_API_ID___hipPopCallConfiguration lib"
    and "d_phase data = ACTIVITY_API_PHASE_ENTER"
    and "m_enable_tracing s"
    and "\<not> m_record_names s \<or> kernel_name_of lib cid data = []"
  shows "hip_api_callback lib domain cid data (s, c, ctx) =
           ((push_correlation (d_correlation_id data) (NodeRef (length (nodes c))) s)
              \<lparr>m_num_correlations_stored := m_num_correlations_stored s + 1\<rparr>,
            c\<lparr>nodes := nodes c @
                 [\<lparr>node_attr = m_api_attr s,
                   node_value = V_string (roctracer_op_string lib (ACTIVITY_DOMAIN_HIP_API lib) cid 0),
                   node_parent = ctx\<rparr>]\<rparr>,
            NodeRef (length (nodes c)))"
proof -
  let ?node = "\<lparr>node_attr = m_api_attr s,
                 node_value = V_string (roctracer_op_string lib (ACTIVITY_DOMAIN_HIP_API lib) cid 0),
                 node_parent = ctx\<rparr>"
  let ?c1 = "c\<lparr>nodes := nodes c @ [?node]\<rparr>"
  have enter: "cali_begin (m_api_attr s)
                 (V_string (roctracer_op_string lib (ACTIVITY_DOMAIN_HIP_API lib) cid 0)) (c, ctx)
               = (?c1, NodeRef (length (nodes c)))"
    by (simp add: cali_begin_def)
  have get: "cali_get (m_api_attr s) ?c1 (NodeRef (length (nodes c)))
               = Entry_reference (length (nodes c))"
    by (simp add: cali_get_def)
  have kernel: "(if m_record_names s then kernel_name_of lib cid data else []) = []"
    using assms(5) by auto
  show ?thesis
    using assms(1-4)
    by (simp add: hip_api_callback_def enter get kernel Let_def)
qed

lemma hip_api_callback_exit:
  assumes "cid \<noteq> HIP_API_ID___hipPushCallConfiguration lib"
    and "cid \<noteq> HIP_API_ID___hipPopCallConfiguration lib"
    and "d_phase data = ACTIVITY_API_PHASE_EXIT"
    and "i < length (nodes c)"
    and "node_attr (nodes c ! i) = m_api_attr s"
  shows "hip_api_callback lib domain cid data (s, c, NodeRef i) = (s, c, node_parent (nodes c ! i))"
  using assms by (simp add: hip_api_callback_def cali_end_def)

lemma duration_field:
  "(m_activity_duration_attr s, V_uint (r_end_ns r - r_begin_ns r)) \<in> set (record_fields lib s r)"
  by (simp add: record_fields_def activity_attr_def activity_data_def
        cali_make_variant_from_uint_def eval_nat_numeral)

lemma push_correlation_frame:
  "m_channel (push_correlation i n s) = m_channel s"
  "m_num_records (push_correlation i n s) = m_num_records s"
  "m_num_flushed (push_correlation i n s) = m_num_flushed s"
  "m_num_flushes (push_correlation i n s) = m_num_flushes s"
  "m_num_correlations_stored (push_correlation i n s) = m_num_correlations_stored s"
  "m_num_correlations_found (push_correlation i n s) = m_num_correlations_found s"
  "m_num_correlations_missed (push_correlation i n s) = m_num_correlations_missed s"
  "m_activity_duration_attr (push_correlation i n s) = m_activity_duration_attr s"
  "m_api_attr (push_correlation i n s) = m_api_attr s"
  by (simp_all add: push_correlation_def)

lemma RocTracerService_initial:
  "m_channel (RocTracerService ch) = ch_name ch"
  "m_num_records (RocTracerService ch) = 0"
  "m_num_flushed (RocTracerService ch) = 0"
  "m_num_flushes (RocTracerService ch) = 0"
  "m_num_correlations_stored (RocTracerService ch) = 0"
  "m_num_correlations_found (RocTracerService ch) = 0"
  "m_num_correlations_missed (RocTracerService ch) = 0"
  "m_correlation_map (RocTracerService ch) = Map.empty"
  "m_enable_tracing (RocTracerService ch) = ch_trace_activities ch"
  "m_record_names (RocTracerService ch) = ch_record_kernel_names ch"
  by (simp_all add: RocTracerService_def)

text \<open>
  C3. A new instance with tracing enabled has an empty store and all counters at zero. A
  thread enters an API call that the vendor library names \<^verbatim>\<open>matmul\<close>, with correlation id
  42 (and no kernel name to record): the callback begins the API attribute with this value,
  stores the thread's new current node under 42, and the stored counter is 1. The thread
  leaves the call: the callback ends the attribute and the thread's current node is the one
  from before. A buffer with one record of an operation domain, correlation id 42 and
  \<open>end_ns - begin_ns = 500\<close> is then flushed on any thread: the flush returns, exactly one
  snapshot has been dispatched to the channel, it holds the duration attribute with value
  500 and one inherited branch whose leaf node has the value \<^verbatim>\<open>matmul\<close>, the entry for
  42 is gone, and the counters are: one record, one flushed, one flush, stored 1, found 1,
  missed 0.
\<close>

theorem matmul_scenario:
  assumes cid: "cid \<noteq> HIP_API_ID___hipPushCallConfiguration lib"
               "cid \<noteq> HIP_API_ID___hipPopCallConfiguration lib"
    and name: "roctracer_op_string lib (ACTIVITY_DOMAIN_HIP_API lib) cid 0 = ''matmul''"
    and trace: "ch_trace_activities ch"
    and kernel: "\<not> ch_record_kernel_names ch \<or> kernel_name_of lib cid enter = []"
    and enter: "d_phase enter = ACTIVITY_API_PHASE_ENTER" "d_correlation_id enter = 42"
    and leave: "d_phase leave = ACTIVITY_API_PHASE_EXIT"
    and buffer: "visited lib e b [b]" "is_ops_record lib (mem b)"
                "r_correlation_id (mem b) = 42" "r_end_ns (mem b) - r_begin_ns (mem b) = 500"
    and step1: "hip_api_callback lib domain cid enter (RocTracerService ch, c0, ctxA) = (s1, c1, ctxA1)"
    and step2: "hip_api_callback lib domain cid leave (s1, c1, ctxA1) = (s2, c2, ctxA2)"
  shows "m_correlation_map s1 42 = Some ctxA1
       \<and> node_value_at c1 ctxA1 = Some (V_string ''matmul'')
       \<and> m_num_correlations_stored s1 = 1
       \<and> ctxA2 = ctxA
       \<and> (\<exists>s3 c3 snap leaf.
             flush_activity_records lib mem b e (s2, c2, ctxB) = Some (s3, c3, ctxB)
           \<and> processed c3 = processed c0 @ [(ch_name ch, snap)]
           \<and> (m_activity_duration_attr s3, V_uint 500) \<in> set (sb_fields snap)
           \<and> sb_context snap = [leaf]
           \<and> node_value_at c3 leaf = Some (V_string ''matmul'')
           \<and> m_correlation_map s3 42 = None
           \<and> counters s3 = (1, 1, 1, 1, 1, 0))"
proof -
  let ?s0 = "RocTracerService ch"
  let ?n = "length (nodes c0)"
  let ?node = "\<lparr>node_attr = m_api_attr ?s0, node_value = V_string ''matmul'', node_parent = ctxA\<rparr>"
  let ?s1 = "(push_correlation 42 (NodeRef ?n) ?s0)\<lparr>m_num_correlations_stored := 1\<rparr>"
  let ?c1 = "c0\<lparr>nodes := nodes c0 @ [?node]\<rparr>"
  have cfg: "m_enable_tracing ?s0" "\<not> m_record_names ?s0 \<or> kernel_name_of lib cid enter = []"
    using trace kernel by (simp_all add: RocTracerService_initial)
  have "hip_api_callback lib domain cid enter (?s0, c0, ctxA) = (?s1, ?c1, NodeRef ?n)"
    using hip_api_callback_enter [OF cid enter(1) cfg, of domain c0 ctxA]
    by (simp add: name enter(2) RocTracerService_initial)
  then have "(s1, c1, ctxA1) = (?s1, ?c1, NodeRef ?n)"
    by (rule trans [OF step1 [symmetric]])
  then have r1: "s1 = ?s1" "c1 = ?c1" "ctxA1 = NodeRef ?n"
    by (simp_all only: prod.inject)
  have attr1: "m_api_attr ?s1 = m_api_attr ?s0"
    by (simp add: push_correlation_frame)
  have "hip_api_callback lib domain cid leave (?s1, ?c1, NodeRef ?n)
          = (?s1, ?c1, node_parent (nodes ?c1 ! ?n))"
    by (rule hip_api_callback_exit [OF cid leave]) (simp_all add: attr1)
  then have "hip_api_callback lib domain cid leave (s1, c1, ctxA1) = (?s1, ?c1, ctxA)"
    by (simp add: r1)
  then have "(s2, c2, ctxA2) = (?s1, ?c1, ctxA)"
    by (rule trans [OF step2 [symmetric]])
  then have r2: "s2 = ?s1" "c2 = ?c1" "ctxA2 = ctxA"
    by (simp_all only: prod.inject)
  have stored: "m_correlation_map ?s1 42 = Some (NodeRef ?n)"
       "m_num_correlations_stored ?s1 = 1"
    by (simp_all add: push_correlation_def RocTracerService_initial)
  have val1: "node_value_at ?c1 (NodeRef ?n) = Some (V_string ''matmul'')"
    by simp
  let ?out = "flush_outcome lib [mem b] (?s1, ?c1, ctxB)"
  let ?snap = "activity_snapshot lib ?s1 (mem b) (NodeRef ?n)"
  have res: "flush_activity_records lib mem b e (?s1, ?c1, ctxB) = Some ?out"
    using flush_activity_records_visited [OF buffer(1), of mem ?s1 ?c1 ctxB] by simp
  have pop: "pop_correlation (r_correlation_id (mem b)) ?s1
               = (NodeRef ?n, ?s1\<lparr>m_correlation_map := (m_correlation_map ?s1)(42 := None)\<rparr>)"
    using stored(1) by (simp add: buffer(3) pop_correlation_def)
  have out_ctx: "snd (snd ?out) = ctxB"
    by (simp add: flush_outcome_def Let_def)
  have out_proc: "processed (fst (snd ?out)) = processed c0 @ [(ch_name ch, ?snap)]"
    using buffer(2)
    by (simp add: flush_outcome_def cali_log_def Let_def pop push_correlation_frame
          RocTracerService_initial)
  have out_nodes: "node_value_at (fst (snd ?out)) (NodeRef ?n) = Some (V_string ''matmul'')"
    by (simp add: flush_outcome_def cali_log_def Let_def nth_append)
  have out_map: "m_correlation_map (fst ?out) 42 = None"
    using buffer(2)
    by (simp add: flush_outcome_def Let_def pop count_take_def)
  have out_cnt: "counters (fst ?out) = (1, 1, 1, 1, 1, 0)"
    using buffer(2)
    by (simp add: flush_outcome_def Let_def pop count_take_def counters_def
          push_correlation_frame RocTracerService_initial)
  have out_attr: "m_activity_duration_attr (fst ?out) = m_activity_duration_attr ?s1"
    using buffer(2)
    by (simp add: flush_outcome_def Let_def pop count_take_def)
  have dur: "(m_activity_duration_attr (fst ?out), V_uint 500) \<in> set (sb_fields ?snap)"
    using duration_field [of ?s1 "mem b" lib]
    by (simp add: out_attr activity_snapshot_def buffer(4))
  have ctxt: "sb_context ?snap = [NodeRef ?n]"
    by (simp add: activity_snapshot_def)
  have flush: "\<exists>s3 c3 snap leaf.
             flush_activity_records lib mem b e (?s1, ?c1, ctxB) = Some (s3, c3, ctxB)
           \<and> processed c3 = processed c0 @ [(ch_name ch, snap)]
           \<and> (m_activity_duration_attr s3, V_uint 500) \<in> set (sb_fields snap)
           \<and> sb_context snap = [leaf]
           \<and> node_value_at c3 leaf = Some (V_string ''matmul'')
           \<and> m_correlation_map s3 42 = None
           \<and> counters s3 = (1, 1, 1, 1, 1, 0)"
  proof (intro exI conjI)
    show "flush_activity_records lib mem b e (?s1, ?c1, ctxB)
            = Some (fst ?out, fst (snd ?out), ctxB)"
      using res out_ctx by (metis prod.collapse)
  qed (rule out_proc dur ctxt out_nodes out_map out_cnt)+
  show ?thesis
    unfolding r1 r2 using stored val1 flush by blast
qed

theorem matmul_scenario_witness:
  "visited example_lib 1 0 [0]
   \<and> is_ops_record example_lib (kernel_memory 0)
   \<and> r_correlation_id (kernel_memory 0) = 42
   \<and> r_end_ns (kernel_memory 0) - r_begin_ns (kernel_memory 0) = 500
   \<and> roctracer_op_string example_lib (ACTIVITY_DOMAIN_HIP_API example_lib) 100 0 = ''matmul''
   \<and> m_correlation_map (fst after_enter) 42 = Some (snd (snd after_enter))
   \<and> node_value_at (fst (snd after_enter)) (snd (snd after_enter)) = Some (V_string ''matmul'')
   \<and> m_num_correlations_stored (fst after_enter) = 1
   \<and> snd (snd after_exit) = Null
   \<and> (\<exists>s3 c3 snap leaf.
         flush_activity_records example_lib kernel_memory 0 1
           (fst after_exit, fst (snd after_exit), Null) = Some (s3, c3, Null)
       \<and> processed c3 = processed example_caliper @ [(ch_name example_channel, snap)]
       \<and> (m_activity_duration_attr s3, V_uint 500) \<in> set (sb_fields snap)
       \<and> sb_context snap = [leaf]
       \<and> node_value_at c3 leaf = Some (V_string ''matmul'')
       \<and> m_correlation_map s3 42 = None
       \<and> counters s3 = (1, 1, 1, 1, 1, 0))"
proof -
  have cid: "(100 :: 32 word) \<noteq> HIP_API_ID___hipPushCallConfiguration example_lib"
            "(100 :: 32 word) \<noteq> HIP_API_ID___hipPopCallConfiguration example_lib"
    by (simp_all add: example_lib_def)
  have name: "roctracer_op_string example_lib (ACTIVITY_DOMAIN_HIP_API example_lib) 100 0 = ''matmul''"
    by (simp add: example_lib_def)
  have trace: "ch_trace_activities example_channel"
    by (simp add: example_channel_def)
  have kernel: "\<not> ch_record_kernel_names example_channel
                \<or> kernel_name_of example_lib 100 enter_data = []"
    by (simp add: example_channel_def)
  have enter: "d_phase enter_data = ACTIVITY_API_PHASE_ENTER" "d_correlation_id enter_data = 42"
    by (simp_all add: enter_data_def)
  have leave: "d_phase exit_data = ACTIVITY_API_PHASE_EXIT"
    by (simp add: exit_data_def)
  have v: "visited example_lib 1 0 [0]"
    by (simp add: example_lib_def)
  have r: "is_ops_record example_lib (kernel_memory 0)"
          "r_correlation_id (kernel_memory 0) = 42"
          "r_end_ns (kernel_memory 0) - r_begin_ns (kernel_memory 0) = 500"
    by (simp_all add: is_ops_record_def example_lib_def kernel_memory_def kernel_record_def)
  have step1: "hip_api_callback example_lib 3 100 enter_data
                 (RocTracerService example_channel, example_caliper, Null)
               = (fst after_enter, fst (snd after_enter), snd (snd after_enter))"
    by (simp add: after_enter_def example_state_def)
  have step2: "hip_api_callback example_lib 3 100 exit_data
                 (fst after_enter, fst (snd after_enter), snd (snd after_enter))
               = (fst after_exit, fst (snd after_exit), snd (snd after_exit))"
    by (simp add: after_exit_def)
  show ?thesis
    using matmul_scenario [where lib = example_lib and cid = 100 and ch = example_channel
        and enter = enter_data and leave = exit_data and e = 1 and b = 0 and mem = kernel_memory
        and domain = 3 and ?c0.0 = example_caliper and ctxA = Null and ctxB = Null,
        OF cid name trace kernel enter leave v r step1 step2] v r name
    by blast
qed

section \<open>Registration of the service\<close>

text \<open>
  C9. \<^verbatim>\<open>register_roctracer\<close> on a second channel while an instance is registered: the
  function logs that the service is already active and is being disabled, and then goes
  on as in a first registration. A second instance is made, \<open>s_instance\<close> points to it
  and no longer to the first, and the callbacks of the second channel are connected next
  to the ones of the first.
\<close>

theorem register_twice_replaces_instance:
  "s_instance (fst registered_once) = Some 0
   \<and> s_instance (fst registered_twice) = Some 1
   \<and> instances (fst registered_twice)
       = [RocTracerService example_channel, RocTracerService other_channel]
   \<and> m_channel (instances (fst registered_twice) ! 1) = ''second''
   \<and> connected (fst registered_twice)
       = [(''default'', POST_INIT_EVT), (''default'', PRE_FINISH_EVT), (''default'', FINISH_EVT),
          (''second'', POST_INIT_EVT), (''second'', PRE_FINISH_EVT), (''second'', FINISH_EVT)]
   \<and> log_stream (snd registered_twice)
       = [(1, LOG_registered ''default'' True), (0, LOG_already_active ''second''),
          (1, LOG_registered ''second'' False)]"
  by (simp add: registered_twice_def registered_once_def register_roctracer_def
        initial_process_def example_caliper_def cali_log_def Let_def RocTracerService_def
        example_channel_def other_channel_def)

section \<open>Properties of the Umpire statistics service\<close>

lemma snapshot_loop_closed:
  "snapshot_loop rm u channel context names (ts, tc, c) =
     (ts + sum_list (map (\<lambda>s. getCurrentSize (getAllocator rm s)) names),
      tc + sum_list (map (\<lambda>s. getAllocationCount (getAllocator rm s)) names),
      c\<lparr>processed := processed c @
           (if m_per_allocator_stats u
            then map (\<lambda>s. (channel, allocator_record u s (getAllocator rm s) context)) names
            else [])\<rparr>)"
proof (induction names arbitrary: ts tc c)
  case Nil
  show ?case by simp
next
  case (Cons s names)
  show ?case
    by (simp add: Cons.IH Let_def process_allocator_def process_snapshot_def add.assoc)
qed

lemma fold_sb_append_room:
  "length (sb_fields b) + length fs \<le> sb_capacity b \<Longrightarrow>
   fold sb_append fs b = b\<lparr>sb_fields := sb_fields b @ fs\<rparr>"
proof (induction fs arbitrary: b)
  case Nil
  show ?case by simp
next
  case (Cons f fs)
  have step: "sb_append f b = b\<lparr>sb_fields := sb_fields b @ [f]\<rparr>"
    using Cons.prems by (simp add: sb_append_def)
  have "fold sb_append fs (sb_append f b)
          = (sb_append f b)\<lparr>sb_fields := sb_fields (sb_append f b) @ fs\<rparr>"
    using Cons.prems by (intro Cons.IH) (simp add: step)
  then show ?case by (simp add: step)
qed

lemma sb_append_branch_fields:
  "sb_fields (sb_append_branch p b) = sb_fields b"
  "sb_capacity (sb_append_branch p b) = sb_capacity b"
  "sb_skipped (sb_append_branch p b) = sb_skipped b"
  by (cases p; simp)+

lemma fold_sb_append_branch_fields:
  "sb_fields (fold sb_append_branch ps b) = sb_fields b"
  "sb_capacity (fold sb_append_branch ps b) = sb_capacity b"
  by (induction ps arbitrary: b) (simp_all add: sb_append_branch_fields)

lemma sb_append_total:
  "length (sb_fields (sb_append f b)) + sb_skipped (sb_append f b)
     = Suc (length (sb_fields b) + sb_skipped b)"
  "sb_capacity (sb_append f b) = sb_capacity b"
  by (simp_all add: sb_append_def)

lemma allocator_record_fields:
  assumes "length (sb_fields context) + 5 \<le> 64"
  shows "sb_fields (allocator_record u name alloc context)
           = sb_fields context @ allocator_fields u name alloc"
proof -
  let ?b0 = "FixedSizeSnapshotRecord 64"
  let ?b1 = "sb_append_view context ?b0"
  have b1: "sb_fields ?b1 = sb_fields context" "sb_capacity ?b1 = 64"
    using assms
    by (simp_all add: sb_append_view_def fold_sb_append_branch_fields fold_sb_append_room
          FixedSizeSnapshotRecord_def)
  have "fold sb_append (allocator_fields u name alloc) ?b1
          = ?b1\<lparr>sb_fields := sb_fields ?b1 @ allocator_fields u name alloc\<rparr>"
    using assms by (intro fold_sb_append_room) (simp add: b1 allocator_fields_def)
  then show ?thesis
    by (simp add: allocator_record_def make_record_def Let_def allocator_fields_def b1)
qed

lemma unat_sum_list:
  "unat (sum_list (xs :: 64 word list)) = sum_list (map unat xs) mod 2 ^ 64"
proof (induction xs)
  case Nil
  show ?case by simp
next
  case (Cons x xs)
  have "unat (x + sum_list xs) = (unat x + unat (sum_list xs)) mod 2 ^ 64"
    by (simp add: unat_word_ariths)
  also have "\<dots> = (unat x + sum_list (map unat xs)) mod 2 ^ 64"
    by (simp add: Cons.IH mod_add_right_eq)
  finally show ?case by simp
qed

text \<open>
  C10. Every call of the snapshot callback appends exactly two fields to the subscriber's
  builder, whatever the setting of the per-allocator statistics: first the total size
  attribute with the sum of \<^verbatim>\<open>getCurrentSize()\<close> over the allocators of the resource manager,
  then the total count attribute with the sum of \<^verbatim>\<open>getAllocationCount()\<close> (sums of
  \<^verbatim>\<open>uint64_t\<close> values, so taken modulo \<open>2 ^ 64\<close>). Each of the two is stored or, in a
  builder that is full, counted as dropped; in a builder with room for two the fields
  afterwards are the fields before followed by these two. Records handed to
  \<^verbatim>\<open>process_snapshot\<close> are made only when the per-allocator statistics are on: then one
  record per allocator name, in the order of the names, each with the context and the
  allocator's name, actual size, current size, high watermark and allocation count (all
  five are stored when the context leaves room for them in the record of capacity 64).
\<close>

theorem umpire_snapshot_totals:
  "snapshot rm u channel info (c, ctx) snapshot_rec =
     (c\<lparr>processed := processed c @
           (if m_per_allocator_stats u
            then allocator_records rm u channel (snapshot_context u info ctx)
            else [])\<rparr>,
      sb_append (m_total_count_attr u, V_uint (total_allocation_count rm))
        (sb_append (m_total_size_attr u, V_uint (total_current_size rm)) snapshot_rec))
   \<and> unat (total_current_size rm)
       = sum_list (map (\<lambda>s. unat (getCurrentSize (getAllocator rm s))) (getAllocatorNames rm))
           mod 2 ^ 64
   \<and> unat (total_allocation_count rm)
       = sum_list (map (\<lambda>s. unat (getAllocationCount (getAllocator rm s))) (getAllocatorNames rm))
           mod 2 ^ 64
   \<and> length (allocator_records rm u channel (snapshot_context u info ctx))
       = length (getAllocatorNames rm)
   \<and> length (sb_fields (snd (snapshot rm u channel info (c, ctx) snapshot_rec)))
       + sb_skipped (snd (snapshot rm u channel info (c, ctx) snapshot_rec))
       = length (sb_fields snapshot_rec) + sb_skipped snapshot_rec + 2
   \<and> (length (sb_fields snapshot_rec) + 2 \<le> sb_capacity snapshot_rec \<longrightarrow>
        sb_fields (snd (snapshot rm u channel info (c, ctx) snapshot_rec))
          = sb_fields snapshot_rec @
              [(m_total_size_attr u, V_uint (total_current_size rm)),
               (m_total_count_attr u, V_uint (total_allocation_count rm))])
   \<and> (length (sb_fields (snapshot_context u info ctx)) + 5 \<le> 64 \<longrightarrow>
        map dispatched_fields (allocator_records rm u channel (snapshot_context u info ctx))
          = map (\<lambda>s. sb_fields (snapshot_context u info ctx)
                        @ allocator_fields u s (getAllocator rm s)) (getAllocatorNames rm))"
proof -
  let ?ctx = "snapshot_context u info ctx"
  let ?size = "(m_total_size_attr u, V_uint (total_current_size rm))"
  let ?count = "(m_total_count_attr u, V_uint (total_allocation_count rm))"
  have eq: "snapshot rm u channel info (c, ctx) snapshot_rec =
     (c\<lparr>processed := processed c @
           (if m_per_allocator_stats u then allocator_records rm u channel ?ctx else [])\<rparr>,
      sb_append ?count (sb_append ?size snapshot_rec))"
    by (simp add: snapshot_def snapshot_loop_closed Let_def snapshot_context_def
          allocator_records_def total_current_size_def total_allocation_count_def)
  have len: "length (allocator_records rm u channel ?ctx) = length (getAllocatorNames rm)"
    by (simp add: allocator_records_def)
  have total: "length (sb_fields (sb_append ?count (sb_append ?size snapshot_rec)))
                 + sb_skipped (sb_append ?count (sb_append ?size snapshot_rec))
               = length (sb_fields snapshot_rec) + sb_skipped snapshot_rec + 2"
    by (simp add: sb_append_total)
  have room: "sb_fields (sb_append ?count (sb_append ?size snapshot_rec))
                = sb_fields snapshot_rec @ [?size, ?count]"
    if "length (sb_fields snapshot_rec) + 2 \<le> sb_capacity snapshot_rec"
    using that by (simp add: sb_append_def)
  have recs: "map dispatched_fields (allocator_records rm u channel ?ctx)
          = map (\<lambda>s. sb_fields ?ctx @ allocator_fields u s (getAllocator rm s)) (getAllocatorNames rm)"
    if "length (sb_fields ?ctx) + 5 \<le> 64"
    using that
    by (simp add: allocator_records_def dispatched_fields_def allocator_record_fields comp_def)
  have sums: "unat (total_current_size rm)
       = sum_list (map (\<lambda>s. unat (getCurrentSize (getAllocator rm s))) (getAllocatorNames rm))
           mod 2 ^ 64"
    "unat (total_allocation_count rm)
       = sum_list (map (\<lambda>s. unat (getAllocationCount (getAllocator rm s))) (getAllocatorNames rm))
           mod 2 ^ 64"
    by (simp_all add: total_current_size_def total_allocation_count_def unat_sum_list comp_def)
  show ?thesis
    using len total room recs sums by (simp add: eq)
qed

theorem umpire_snapshot_totals_witness:
  "length (sb_fields example_builder) + 2 \<le> sb_capacity example_builder
   \<and> length (sb_fields (snapshot_context (UmpireService 0 True) (FixedSizeSnapshotRecord 0) Null))
        + 5 \<le> 64
   \<and> total_current_size example_rm = 1536
   \<and> total_allocation_count example_rm = 5
   \<and> sb_fields (snd (snapshot example_rm (UmpireService 0 True) ''default''
                        (FixedSizeSnapshotRecord 0) (example_caliper, Null) example_builder))
       = sb_fields example_builder @
           [(m_total_size_attr (UmpireService 0 True), V_uint (total_current_size example_rm)),
            (m_total_count_attr (UmpireService 0 True), V_uint (total_allocation_count example_rm))]
   \<and> map dispatched_fields
         (allocator_records example_rm (UmpireService 0 True) ''default''
            (snapshot_context (UmpireService 0 True) (FixedSizeSnapshotRecord 0) Null))
       = map (\<lambda>s. sb_fields (snapshot_context (UmpireService 0 True) (FixedSizeSnapshotRecord 0) Null)
                     @ allocator_fields (UmpireService 0 True) s (getAllocator example_rm s))
           (getAllocatorNames example_rm)"
proof -
  have room: "length (sb_fields example_builder) + 2 \<le> sb_capacity example_builder"
    by (simp add: example_builder_def FixedSizeSnapshotRecord_def)
  have ctx: "length (sb_fields (snapshot_context (UmpireService 0 True)
                (FixedSizeSnapshotRecord 0) Null)) + 5 \<le> 64"
    by (simp add: snapshot_context_def UmpireService_def pull_context_def sb_append_view_def
          FixedSizeSnapshotRecord_def)
  have sums: "total_current_size example_rm = 1536" "total_allocation_count example_rm = 5"
    by (simp_all add: total_current_size_def total_allocation_count_def example_rm_def)
  show ?thesis
    using umpire_snapshot_totals [of example_rm "UmpireService 0 True" "''default''"
        "FixedSizeSnapshotRecord 0" example_caliper Null example_builder] room ctx sums
    by blast
qed

end
